theory Spec2Isabelle
  imports Main
begin

section \<open>JavaScript values and plain objects\<close>

text \<open>
  Attribute and key values are opaque JavaScript values.  Primitives are compared by
  value; arrays and objects are heap objects, so each carries the address that gives
  it its identity next to its contents.  An object that a caller built has a
  \<open>Given\<close> address; the \<open>n\<close>-th object that \<^verbatim>\<open>clone\<close> creates has the address
  \<open>Cloned n\<close>.  Numbers are restricted to integers.
\<close>

datatype address = Given nat | Cloned nat

datatype jsval =
    JUndefined
  | JNull
  | JBool bool
  | JNum int
  | JStr string
  | JArr address "jsval list"
  | JObj address "(string \<times> jsval) list"

text \<open>The strict equality operator \<^verbatim>\<open>===\<close>: primitives by value, objects by reference.\<close>

fun strict_eq :: "jsval \<Rightarrow> jsval \<Rightarrow> bool" where
  "strict_eq JUndefined JUndefined = True"
| "strict_eq JNull JNull = True"
| "strict_eq (JBool a) (JBool b) = (a = b)"
| "strict_eq (JNum a) (JNum b) = (a = b)"
| "strict_eq (JStr a) (JStr b) = (a = b)"
| "strict_eq (JArr a _) (JArr b _) = (a = b)"
| "strict_eq (JObj a _) (JObj b _) = (a = b)"
| "strict_eq _ _ = False"

text \<open>
  A plain object used as a dictionary (\<^verbatim>\<open>Dict<T>\<close>): an association list in property
  order.  Reading a missing property gives \<^verbatim>\<open>undefined\<close>, here \<open>None\<close>; writing
  replaces the property in place or appends it.
\<close>

type_synonym 'v dict = "(string \<times> 'v) list"

definition dict_get :: "'v dict \<Rightarrow> string \<Rightarrow> 'v option" where
  "dict_get d k = map_of d k"

primrec dict_set :: "string \<Rightarrow> 'v \<Rightarrow> 'v dict \<Rightarrow> 'v dict" where
  "dict_set k v [] = [(k, v)]"
| "dict_set k v (p # ps) = (if fst p = k then (k, v) # ps else p # dict_set k v ps)"

definition dict_remove :: "string \<Rightarrow> 'v dict \<Rightarrow> 'v dict" where
  "dict_remove k d = filter (\<lambda>p. fst p \<noteq> k) d"

definition object_keys :: "'v dict \<Rightarrow> string list" where
  "object_keys d = map fst d"

text \<open>
  Modelled from the spec: \<^verbatim>\<open>eq\<close> of @orbit/utils is not among the sources; the
  specification describes it as structural deep equality.  Addresses are ignored,
  arrays are compared element by element, objects property by property whatever the
  property order.
\<close>

fun eq :: "jsval \<Rightarrow> jsval \<Rightarrow> bool"
  and eq_elements :: "jsval list \<Rightarrow> jsval list \<Rightarrow> bool"
  and eq_fields :: "(string \<times> jsval) list \<Rightarrow> (string \<times> jsval) list \<Rightarrow> bool" where
  "eq JUndefined b = (b = JUndefined)"
| "eq JNull b = (b = JNull)"
| "eq (JBool x) b = (b = JBool x)"
| "eq (JNum x) b = (b = JNum x)"
| "eq (JStr x) b = (b = JStr x)"
| "eq (JArr _ xs) b = (case b of JArr _ ys \<Rightarrow> eq_elements xs ys | _ \<Rightarrow> False)"
| "eq (JObj _ fs) b =
     (case b of JObj _ gs \<Rightarrow> length fs = length gs \<and> eq_fields fs gs | _ \<Rightarrow> False)"
| "eq_elements [] ys = (ys = [])"
| "eq_elements (x # xs) ys =
     (case ys of [] \<Rightarrow> False | y # ys' \<Rightarrow> eq x y \<and> eq_elements xs ys')"
| "eq_fields [] gs = True"
| "eq_fields (f # fs) gs =
     ((case map_of gs (fst f) of None \<Rightarrow> False | Some w \<Rightarrow> eq (snd f) w) \<and> eq_fields fs gs)"


section \<open>Records (record.ts)\<close>

datatype RecordIdentity = RecordIdentity (rtype: string) (rid: string)

text \<open>
  The \<^verbatim>\<open>data\<close> member of a relationship object as it may be found at run time:
  \<^verbatim>\<open>null\<close>, one identity (hasOne) or an array of identities (hasMany).  A value read
  through \<^verbatim>\<open>deepGet\<close> is a \<open>RelData option\<close>, \<open>None\<close> standing for \<^verbatim>\<open>undefined\<close>.
\<close>

datatype RelData = DataNull | DataOne RecordIdentity | DataMany "RecordIdentity list"

record Record =
  identity :: RecordIdentity
  keys :: "jsval dict option"
  attributes :: "jsval dict option"
  relationships :: "RelData dict option"

definition cloneRecordIdentity :: "RecordIdentity \<Rightarrow> RecordIdentity" where
  "cloneRecordIdentity i = RecordIdentity (rtype i) (rid i)"

definition bare :: "RecordIdentity \<Rightarrow> Record" where
  "bare i = \<lparr>identity = cloneRecordIdentity i, keys = None, attributes = None, relationships = None\<rparr>"

text \<open>
  \<^verbatim>\<open>isNone\<close> of @orbit/utils, which is not among the sources: the value is
  \<^verbatim>\<open>undefined\<close> or \<^verbatim>\<open>null\<close>.  Its \<^verbatim>\<open>isObject\<close> holds of identities and of arrays.
\<close>

definition isNone :: "RelData option \<Rightarrow> bool" where
  "isNone v = (v = None \<or> v = Some DataNull)"

text \<open>
  \<^verbatim>\<open>equalRecordIdentities\<close>.  Both arguments may be any relationship data.  Two arrays
  are both objects whose \<^verbatim>\<open>type\<close> and \<^verbatim>\<open>id\<close> are \<^verbatim>\<open>undefined\<close>, so they compare equal;
  an array and an identity do not.
\<close>

fun equalRecordIdentities :: "RelData option \<Rightarrow> RelData option \<Rightarrow> bool" where
  "equalRecordIdentities (Some (DataOne a)) (Some (DataOne b)) = (rtype a = rtype b \<and> rid a = rid b)"
| "equalRecordIdentities (Some (DataMany _)) (Some (DataMany _)) = True"
| "equalRecordIdentities (Some (DataOne _)) (Some (DataMany _)) = False"
| "equalRecordIdentities (Some (DataMany _)) (Some (DataOne _)) = False"
| "equalRecordIdentities a b = (isNone a \<and> isNone b)"

abbreviation one :: "RecordIdentity \<Rightarrow> RelData option" where
  "one i \<equiv> Some (DataOne i)"

datatype error =
    TypeError
  | RecordNotFoundException string string
  | QueryExpressionParseError
  | ModelNotFound string
  | SchemaValidationError

definition serializeRecordIdentity :: "RecordIdentity \<Rightarrow> string" where
  "serializeRecordIdentity r = rtype r @ '':'' @ rid r"

definition serializeRecordIdentities :: "RecordIdentity list \<Rightarrow> string list" where
  "serializeRecordIdentities rs = map serializeRecordIdentity rs"

text \<open>\<^verbatim>\<open>String.prototype.split(':')\<close>.\<close>

fun split_colon :: "string \<Rightarrow> string \<Rightarrow> string list" where
  "split_colon acc [] = [rev acc]"
| "split_colon acc (c # cs) =
     (if c = CHR '':'' then rev acc # split_colon [] cs else split_colon (c # acc) cs)"

text \<open>
  \<^verbatim>\<open>deserializeRecordIdentity\<close> destructures the first two segments; the split of a
  serialised identity always has at least two.
\<close>

definition deserializeRecordIdentity :: "string \<Rightarrow> RecordIdentity" where
  "deserializeRecordIdentity s =
     (case split_colon [] s of
        t # i # _ \<Rightarrow> RecordIdentity t i
      | [t] \<Rightarrow> RecordIdentity t []
      | [] \<Rightarrow> RecordIdentity [] [])"

definition exclusiveIdentities :: "string list \<Rightarrow> string list \<Rightarrow> string list" where
  "exclusiveIdentities identities1 identities2 = filter (\<lambda>i. i \<notin> set identities2) identities1"

text \<open>
  \<^verbatim>\<open>equalRecordIdentitySets\<close>.  The arguments are declared as arrays but come from
  relationship data: reading \<^verbatim>\<open>length\<close> of \<^verbatim>\<open>undefined\<close> or \<^verbatim>\<open>null\<close> is a
  \<^verbatim>\<open>TypeError\<close>, the \<^verbatim>\<open>length\<close> of an identity object is \<^verbatim>\<open>undefined\<close>, and
  \<^verbatim>\<open>map\<close> of an identity object is not a function.
\<close>

fun equalRecordIdentitySets :: "RelData option \<Rightarrow> RelData option \<Rightarrow> error + bool" where
  "equalRecordIdentitySets (Some (DataMany set1)) (Some (DataMany set2)) =
     (if length set1 = length set2 then
        (if length set1 = 0 then Inr True
         else Inr (exclusiveIdentities (serializeRecordIdentities set1) (serializeRecordIdentities set2) = []
                 \<and> exclusiveIdentities (serializeRecordIdentities set2) (serializeRecordIdentities set1) = []))
      else Inr False)"
| "equalRecordIdentitySets (Some (DataMany _)) (Some (DataOne _)) = Inr False"
| "equalRecordIdentitySets (Some (DataOne _)) (Some (DataMany _)) = Inr False"
| "equalRecordIdentitySets (Some (DataOne _)) (Some (DataOne _)) = Inl TypeError"
| "equalRecordIdentitySets _ _ = Inl TypeError"

definition exclusiveOfRecordIdentitySet :: "RecordIdentity list \<Rightarrow> RecordIdentity list \<Rightarrow> RecordIdentity list" where
  "exclusiveOfRecordIdentitySet set1 set2 =
     map deserializeRecordIdentity
       (exclusiveIdentities (serializeRecordIdentities set1) (serializeRecordIdentities set2))"

definition recordIdentitySetIncludes :: "RecordIdentity list \<Rightarrow> RecordIdentity \<Rightarrow> bool" where
  "recordIdentitySetIncludes set1 record1 = list_ex (\<lambda>r. equalRecordIdentities (one r) (one record1)) set1"

text \<open>
  Modelled from the spec: \<^verbatim>\<open>merge\<close> of @orbit/utils is not among the sources; the
  specification describes a shallow merge of the incoming mapping into the existing
  one, overriding field by field and preserving the other fields.  The target is the
  fresh object \<^verbatim>\<open>{}\<close>.
\<close>

definition merge :: "'v dict list \<Rightarrow> 'v dict" where
  "merge sources = fold (\<lambda>source obj. fold (\<lambda>(k, v). dict_set k v) source obj) sources []"

definition mergeGrouping :: "'v dict option \<Rightarrow> 'v dict option \<Rightarrow> 'v dict option" where
  "mergeGrouping c u =
     (case (c, u) of
        (Some cg, Some ug) \<Rightarrow> Some (merge [cg, ug])
      | (Some cg, None) \<Rightarrow> Some (merge [cg])
      | (None, Some ug) \<Rightarrow> Some (merge [ug])
      | (None, None) \<Rightarrow> None)"

definition mergeRecords :: "Record option \<Rightarrow> Record \<Rightarrow> Record" where
  "mergeRecords current updates =
     (case current of
        Some c \<Rightarrow>
          \<lparr>identity = cloneRecordIdentity (identity c),
           keys = mergeGrouping (keys c) (keys updates),
           attributes = mergeGrouping (attributes c) (attributes updates),
           relationships = mergeGrouping (relationships c) (relationships updates)\<rparr>
      | None \<Rightarrow> updates)"


section \<open>Schema\<close>

text \<open>
  Modelled from the spec: the schema registry is not among the sources.  A model
  declares its relationships, each with a \<^verbatim>\<open>type\<close> (\<^verbatim>\<open>'hasOne'\<close> or \<^verbatim>\<open>'hasMany'\<close>), a
  target model and an optional inverse; \<^verbatim>\<open>getModel\<close> fails for a type that is not
  declared.
\<close>

record RelationshipDefinition =
  rel_type :: string
  rel_model :: string
  inverse_name :: "string option"

record ModelDefinition =
  model_relationships :: "RelationshipDefinition dict"

record Schema =
  models :: "ModelDefinition dict"

definition getModel :: "Schema \<Rightarrow> string \<Rightarrow> error + ModelDefinition" where
  "getModel s t = (case dict_get (models s) t of None \<Rightarrow> Inl (ModelNotFound t) | Some m \<Rightarrow> Inr m)"

text \<open>
  \<^verbatim>\<open>schema.getModel(type).relationships[relationship]\<close>; the result is \<open>None\<close> when
  the relationship is not declared.
\<close>

definition relationshipDef :: "Schema \<Rightarrow> string \<Rightarrow> string \<Rightarrow> error + RelationshipDefinition option" where
  "relationshipDef s t r =
     (case getModel s t of Inl e \<Rightarrow> Inl e | Inr m \<Rightarrow> Inr (dict_get (model_relationships m) r))"

text \<open>Truthiness of \<^verbatim>\<open>relationshipDef.inverse\<close>: a non-empty string.\<close>

definition hasInverse :: "RelationshipDefinition \<Rightarrow> bool" where
  "hasInverse d = (case inverse_name d of None \<Rightarrow> False | Some n \<Rightarrow> n \<noteq> [])"

section \<open>The cache: record store and inverse-relationship index\<close>

datatype RelatedRecordIdentity = RelatedRecordIdentity (rel_record: RecordIdentity) (relationship: string)

text \<open>
  The class \<^verbatim>\<open>Cache\<close>: one map of records and one map of back-references per model
  type, created for the models of the schema.  Reading the map of a type that has
  none is a \<^verbatim>\<open>TypeError\<close>.  No key map is configured.

  Modelled from the spec: the immutable maps of @orbit/immutable are not among the
  sources; \<^verbatim>\<open>get\<close>, \<^verbatim>\<open>set\<close>, \<^verbatim>\<open>remove\<close> and \<^verbatim>\<open>values\<close> are those of a map, here an
  association list, and \<^verbatim>\<open>values\<close> follows its order, which the specification leaves
  open.

  Next to the two maps the state carries \<open>copies\<close>, the number of arrays and objects
  that \<^verbatim>\<open>clone\<close> has created so far: the part of the heap from which the patch
  operators take the address of a new copy.
\<close>

record Cache =
  schema :: Schema
  records :: "Record dict dict"
  inverseRelationships :: "RelatedRecordIdentity list dict dict"
  copies :: nat

definition reset :: "Schema \<Rightarrow> Cache" where
  "reset s =
     \<lparr>schema = s,
      records = map (\<lambda>t. (t, [])) (object_keys (models s)),
      inverseRelationships = map (\<lambda>t. (t, [])) (object_keys (models s)),
      copies = 0\<rparr>"

definition getRecord :: "Cache \<Rightarrow> RecordIdentity \<Rightarrow> error + Record option" where
  "getRecord c i =
     (case dict_get (records c) (rtype i) of
        None \<Rightarrow> Inl TypeError
      | Some bucket \<Rightarrow> Inr (dict_get bucket (rid i)))"

definition getRecords :: "Cache \<Rightarrow> string \<Rightarrow> error + Record list" where
  "getRecords c t =
     (case dict_get (records c) t of
        None \<Rightarrow> Inl TypeError
      | Some bucket \<Rightarrow> Inr (map snd bucket))"

definition getInverselyRelatedRecords :: "Cache \<Rightarrow> RecordIdentity \<Rightarrow> error + RelatedRecordIdentity list" where
  "getInverselyRelatedRecords c i =
     (case dict_get (inverseRelationships c) (rtype i) of
        None \<Rightarrow> Inl TypeError
      | Some bucket \<Rightarrow> Inr (case dict_get bucket (rid i) of None \<Rightarrow> [] | Some rels \<Rightarrow> rels))"

definition setRecord :: "Cache \<Rightarrow> Record \<Rightarrow> error + Cache" where
  "setRecord c r =
     (case dict_get (records c) (rtype (identity r)) of
        None \<Rightarrow> Inl TypeError
      | Some bucket \<Rightarrow>
          Inr (c\<lparr>records := dict_set (rtype (identity r)) (dict_set (rid (identity r)) r bucket) (records c)\<rparr>))"

definition removeRecord :: "Cache \<Rightarrow> RecordIdentity \<Rightarrow> error + Record option \<times> Cache" where
  "removeRecord c i =
     (case dict_get (records c) (rtype i) of
        None \<Rightarrow> Inl TypeError
      | Some recordMap \<Rightarrow>
          (case dict_get recordMap (rid i) of
             Some record \<Rightarrow>
               Inr (Some record, c\<lparr>records := dict_set (rtype i) (dict_remove (rid i) recordMap) (records c)\<rparr>)
           | None \<Rightarrow> Inr (None, c)))"

definition addInverselyRelatedRecord :: "Cache \<Rightarrow> RecordIdentity \<Rightarrow> RelatedRecordIdentity \<Rightarrow> error + Cache" where
  "addInverselyRelatedRecord c i inverseRelationship =
     (case dict_get (inverseRelationships c) (rtype i) of
        None \<Rightarrow> Inl TypeError
      | Some bucket \<Rightarrow>
          (let rels = (case dict_get bucket (rid i) of Some rs \<Rightarrow> rs | None \<Rightarrow> [])
           in Inr (c\<lparr>inverseRelationships :=
                       dict_set (rtype i) (dict_set (rid i) (rels @ [inverseRelationship]) bucket)
                         (inverseRelationships c)\<rparr>)))"

definition removeInverselyRelatedRecord :: "Cache \<Rightarrow> RecordIdentity \<Rightarrow> RelatedRecordIdentity \<Rightarrow> error + Cache" where
  "removeInverselyRelatedRecord c i inverseRelationship =
     (case dict_get (inverseRelationships c) (rtype i) of
        None \<Rightarrow> Inl TypeError
      | Some bucket \<Rightarrow>
          (case dict_get bucket (rid i) of
             Some rels \<Rightarrow>
               (let newRels = filter (\<lambda>r. \<not> (rtype (rel_record r) = rtype (rel_record inverseRelationship) \<and>
                                              rid (rel_record r) = rid (rel_record inverseRelationship) \<and>
                                              relationship r = relationship inverseRelationship)) rels
                in Inr (c\<lparr>inverseRelationships :=
                            dict_set (rtype i) (dict_set (rid i) newRels bucket) (inverseRelationships c)\<rparr>))
           | None \<Rightarrow> Inr c))"

definition removeInverseRelationships :: "Cache \<Rightarrow> RecordIdentity \<Rightarrow> error + Cache" where
  "removeInverseRelationships c i =
     (case dict_get (inverseRelationships c) (rtype i) of
        None \<Rightarrow> Inl TypeError
      | Some bucket \<Rightarrow>
          Inr (c\<lparr>inverseRelationships := dict_set (rtype i) (dict_remove (rid i) bucket) (inverseRelationships c)\<rparr>))"

section \<open>Derived reads of the accessor (sync-record-accessor.ts)\<close>

text \<open>
  Modelled from the spec: \<^verbatim>\<open>deepGet\<close> of @orbit/utils is not among the sources; it
  follows a path of property names and returns \<^verbatim>\<open>undefined\<close> when a member on the path
  is missing.  Here \<^verbatim>\<open>deepGet(record, ['relationships', relationship, 'data'])\<close>; a
  relationship object always has its \<^verbatim>\<open>data\<close> member.
\<close>

definition deepGet_data :: "Record \<Rightarrow> string \<Rightarrow> RelData option" where
  "deepGet_data r rel = (case relationships r of None \<Rightarrow> None | Some rs \<Rightarrow> dict_get rs rel)"

text \<open>\<^verbatim>\<open>deepGet(record, ['attributes', name])\<close> and \<^verbatim>\<open>deepGet(record, ['keys', name])\<close>.\<close>

definition deepGet_attribute :: "Record \<Rightarrow> string \<Rightarrow> jsval" where
  "deepGet_attribute r a =
     (case attributes r of None \<Rightarrow> JUndefined
      | Some d \<Rightarrow> (case dict_get d a of None \<Rightarrow> JUndefined | Some v \<Rightarrow> v))"

definition deepGet_key :: "Record \<Rightarrow> string \<Rightarrow> jsval" where
  "deepGet_key r k =
     (case keys r of None \<Rightarrow> JUndefined
      | Some d \<Rightarrow> (case dict_get d k of None \<Rightarrow> JUndefined | Some v \<Rightarrow> v))"

text \<open>
  \<^verbatim>\<open>getRelatedRecord\<close> returns \<^verbatim>\<open>relatedRecord || null\<close> and \<^verbatim>\<open>getRelatedRecords\<close> returns
  \<^verbatim>\<open>relatedRecords || []\<close>: identities and arrays (also empty ones) are truthy.
\<close>

definition getRelatedRecord :: "Cache \<Rightarrow> RecordIdentity \<Rightarrow> string \<Rightarrow> error + RelData" where
  "getRelatedRecord c i rel =
     (case getRecord c i of
        Inl e \<Rightarrow> Inl e
      | Inr None \<Rightarrow> Inr DataNull
      | Inr (Some record) \<Rightarrow>
          (case deepGet_data record rel of
             None \<Rightarrow> Inr DataNull
           | Some DataNull \<Rightarrow> Inr DataNull
           | Some relatedRecord \<Rightarrow> Inr relatedRecord))"

definition getRelatedRecords :: "Cache \<Rightarrow> RecordIdentity \<Rightarrow> string \<Rightarrow> error + RelData" where
  "getRelatedRecords c i rel =
     (case getRecord c i of
        Inl e \<Rightarrow> Inl e
      | Inr None \<Rightarrow> Inr (DataMany [])
      | Inr (Some record) \<Rightarrow>
          (case deepGet_data record rel of
             None \<Rightarrow> Inr (DataMany [])
           | Some DataNull \<Rightarrow> Inr (DataMany [])
           | Some relatedRecords \<Rightarrow> Inr relatedRecords))"

definition relatedRecordEquals :: "Cache \<Rightarrow> RecordIdentity \<Rightarrow> string \<Rightarrow> RelData \<Rightarrow> error + bool" where
  "relatedRecordEquals c i rel match =
     (case getRelatedRecord c i rel of
        Inl e \<Rightarrow> Inl e
      | Inr d \<Rightarrow> Inr (equalRecordIdentities (Some d) (Some match)))"

text \<open>
  \<^verbatim>\<open>relatedRecordsInclude\<close>: the match is an array (\<open>Inl\<close>) or one identity (\<open>Inr\<close>).
  When the relationship holds one identity instead of an array, neither \<^verbatim>\<open>map\<close> nor
  iteration with \<^verbatim>\<open>for ... of\<close> is possible on it.
\<close>

definition relatedRecordsInclude ::
  "Cache \<Rightarrow> RecordIdentity \<Rightarrow> string \<Rightarrow> RecordIdentity list + RecordIdentity \<Rightarrow> error + bool" where
  "relatedRecordsInclude c i rel match =
     (case getRelatedRecords c i rel of
        Inl e \<Rightarrow> Inl e
      | Inr (DataMany related) \<Rightarrow>
          (case match of
             Inl ms \<Rightarrow> Inr (length (exclusiveOfRecordIdentitySet ms related) = 0)
           | Inr m \<Rightarrow> Inr (recordIdentitySetIncludes related m))
      | Inr _ \<Rightarrow> Inl TypeError)"


section \<open>Operations\<close>

text \<open>
  The closed set of operations.  \<^verbatim>\<open>replaceRelatedRecords\<close> and \<^verbatim>\<open>replaceRelatedRecord\<close>
  carry relationship data, because the inverse operators put whatever data they read
  into the operation they return.
\<close>

datatype RecordOperation =
    AddRecord Record
  | ReplaceRecord Record
  | RemoveRecord RecordIdentity
  | ReplaceKey RecordIdentity string jsval
  | ReplaceAttribute RecordIdentity string jsval
  | AddToRelatedRecords RecordIdentity string RecordIdentity
  | RemoveFromRelatedRecords RecordIdentity string RecordIdentity
  | ReplaceRelatedRecords RecordIdentity string RelData
  | ReplaceRelatedRecord RecordIdentity string RelData

section \<open>Deep equality and deep assignment on records\<close>

text \<open>
  Modelled from the spec: \<^verbatim>\<open>eq\<close>, \<^verbatim>\<open>deepSet\<close> and \<^verbatim>\<open>clone\<close> of @orbit/utils are not
  among the sources.  \<^verbatim>\<open>eq\<close> on two records compares identity and the three groupings
  structurally; \<^verbatim>\<open>deepSet\<close> creates the objects on the path that are missing and
  assigns the last member; \<^verbatim>\<open>clone\<close> is a deep copy: primitives are copied by value,
  and every array and object of the copy is a new object with the contents copied in
  turn.  The copy of a record has the identity and the relationships of the record,
  and keys and attributes whose arrays and objects are new.
\<close>

fun cloneValue :: "jsval \<Rightarrow> nat \<Rightarrow> jsval \<times> nat"
  and cloneElements :: "jsval list \<Rightarrow> nat \<Rightarrow> jsval list \<times> nat"
  and cloneFields :: "(string \<times> jsval) list \<Rightarrow> nat \<Rightarrow> (string \<times> jsval) list \<times> nat" where
  "cloneValue JUndefined n = (JUndefined, n)"
| "cloneValue JNull n = (JNull, n)"
| "cloneValue (JBool b) n = (JBool b, n)"
| "cloneValue (JNum x) n = (JNum x, n)"
| "cloneValue (JStr x) n = (JStr x, n)"
| "cloneValue (JArr _ xs) n = (case cloneElements xs (Suc n) of (ys, m) \<Rightarrow> (JArr (Cloned n) ys, m))"
| "cloneValue (JObj _ fs) n = (case cloneFields fs (Suc n) of (gs, m) \<Rightarrow> (JObj (Cloned n) gs, m))"
| "cloneElements [] n = ([], n)"
| "cloneElements (x # xs) n =
     (case cloneValue x n of (y, m) \<Rightarrow>
        (case cloneElements xs m of (ys, k) \<Rightarrow> (y # ys, k)))"
| "cloneFields [] n = ([], n)"
| "cloneFields (f # fs) n =
     (case cloneValue (snd f) n of (y, m) \<Rightarrow>
        (case cloneFields fs m of (gs, k) \<Rightarrow> ((fst f, y) # gs, k)))"

definition cloneGrouping :: "jsval dict option \<Rightarrow> nat \<Rightarrow> jsval dict option \<times> nat" where
  "cloneGrouping g n =
     (case g of
        None \<Rightarrow> (None, n)
      | Some d \<Rightarrow> (case cloneFields d n of (d', m) \<Rightarrow> (Some d', m)))"

definition clone :: "Record \<Rightarrow> nat \<Rightarrow> Record \<times> nat" where
  "clone r n =
     (case cloneGrouping (keys r) n of (ks, m) \<Rightarrow>
        (case cloneGrouping (attributes r) m of (as, k) \<Rightarrow>
           (r\<lparr>keys := ks, attributes := as\<rparr>, k)))"

definition eq_dict :: "('v \<Rightarrow> 'v \<Rightarrow> bool) \<Rightarrow> 'v dict \<Rightarrow> 'v dict \<Rightarrow> bool" where
  "eq_dict veq a b =
     (length a = length b \<and>
      list_all (\<lambda>(k, v). case map_of b k of None \<Rightarrow> False | Some w \<Rightarrow> veq v w) a)"

definition eq_grouping :: "('v \<Rightarrow> 'v \<Rightarrow> bool) \<Rightarrow> 'v dict option \<Rightarrow> 'v dict option \<Rightarrow> bool" where
  "eq_grouping veq a b =
     (case (a, b) of
        (None, None) \<Rightarrow> True
      | (Some x, Some y) \<Rightarrow> eq_dict veq x y
      | _ \<Rightarrow> False)"

definition eq_record :: "Record \<Rightarrow> Record \<Rightarrow> bool" where
  "eq_record a b =
     (identity a = identity b \<and>
      eq_grouping eq (keys a) (keys b) \<and>
      eq_grouping eq (attributes a) (attributes b) \<and>
      eq_grouping (=) (relationships a) (relationships b))"

definition grouping_set :: "string \<Rightarrow> 'v \<Rightarrow> 'v dict option \<Rightarrow> 'v dict option" where
  "grouping_set k v g = Some (dict_set k v (case g of None \<Rightarrow> [] | Some d \<Rightarrow> d))"

definition deepSet_key :: "Record \<Rightarrow> string \<Rightarrow> jsval \<Rightarrow> Record" where
  "deepSet_key r k v = r\<lparr>keys := grouping_set k v (keys r)\<rparr>"

definition deepSet_attribute :: "Record \<Rightarrow> string \<Rightarrow> jsval \<Rightarrow> Record" where
  "deepSet_attribute r a v = r\<lparr>attributes := grouping_set a v (attributes r)\<rparr>"

text \<open>
  \<^verbatim>\<open>deepSet(record, ['relationships', rel, 'data'], value)\<close> also reports whether it
  assigned: it does not when the member already holds the very same value.  The
  record was cloned just before, so only \<^verbatim>\<open>null\<close> can be found identical.
\<close>

definition deepSet_data :: "Record \<Rightarrow> string \<Rightarrow> RelData \<Rightarrow> bool \<times> Record" where
  "deepSet_data r rel v =
     (if deepGet_data r rel = Some DataNull \<and> v = DataNull then (False, r)
      else (True, r\<lparr>relationships := grouping_set rel v (relationships r)\<rparr>))"

section \<open>Inverse patch operators (inverse-patch-operators.ts)\<close>

text \<open>
  Each operator reads the cache and returns the operation that undoes the given one,
  or nothing (\<open>None\<close>).
\<close>

text \<open>
  The loop over the fields of one of the groupings \<^verbatim>\<open>attributes\<close> and \<^verbatim>\<open>keys\<close> of
  the replacement: the state is the result grouping and the flag \<^verbatim>\<open>changed\<close>.
\<close>

definition inverseField ::
  "(string \<Rightarrow> jsval) \<Rightarrow> string \<times> jsval \<Rightarrow> jsval dict option \<times> bool \<Rightarrow> jsval dict option \<times> bool" where
  "inverseField currentOf fv acc =
     (let currentValue = currentOf (fst fv) in
      if \<not> eq (snd fv) currentValue
      then (grouping_set (fst fv) (if currentValue = JUndefined then JNull else currentValue) (fst acc), True)
      else acc)"

definition inverseGrouping ::
  "(string \<Rightarrow> jsval) \<Rightarrow> jsval dict option \<Rightarrow> bool \<Rightarrow> jsval dict option \<times> bool" where
  "inverseGrouping currentOf replacement changed =
     (case replacement of
        None \<Rightarrow> (None, changed)
      | Some fs \<Rightarrow> fold (inverseField currentOf) fs (None, changed))"

text \<open>The loop over the relationships of the replacement; the set comparison may fail.\<close>

definition inverseRelationship ::
  "Record \<Rightarrow> string \<times> RelData \<Rightarrow> error + RelData dict option \<times> bool \<Rightarrow> error + RelData dict option \<times> bool" where
  "inverseRelationship current fd acc =
     (case acc of
        Inl e \<Rightarrow> Inl e
      | Inr (result, changed) \<Rightarrow>
          (let currentData = deepGet_data current (fst fd);
               relationshipMatch =
                 (case snd fd of
                    DataMany _ \<Rightarrow> equalRecordIdentitySets currentData (Some (snd fd))
                  | _ \<Rightarrow> Inr (equalRecordIdentities currentData (Some (snd fd))))
           in case relationshipMatch of
                Inl e \<Rightarrow> Inl e
              | Inr True \<Rightarrow> Inr (result, changed)
              | Inr False \<Rightarrow>
                  Inr (grouping_set (fst fd) (case currentData of None \<Rightarrow> DataNull | Some d \<Rightarrow> d) result, True)))"

definition inverse_addRecord :: "Cache \<Rightarrow> Record \<Rightarrow> error + RecordOperation option" where
  "inverse_addRecord cache record =
     (case getRecord cache (identity record) of
        Inl e \<Rightarrow> Inl e
      | Inr None \<Rightarrow> Inr (Some (RemoveRecord (cloneRecordIdentity (identity record))))
      | Inr (Some current) \<Rightarrow>
          (if eq_record current record then Inr None
           else Inr (Some (ReplaceRecord current))))"

definition inverse_replaceRecord :: "Cache \<Rightarrow> Record \<Rightarrow> error + RecordOperation option" where
  "inverse_replaceRecord cache replacement =
     (case getRecord cache (identity replacement) of
        Inl e \<Rightarrow> Inl e
      | Inr None \<Rightarrow> Inr (Some (RemoveRecord (cloneRecordIdentity (identity replacement))))
      | Inr (Some current) \<Rightarrow>
          (let (attrs, changed1) = inverseGrouping (deepGet_attribute current) (attributes replacement) False;
               (ks, changed2) = inverseGrouping (deepGet_key current) (keys replacement) changed1
           in case (case relationships replacement of
                      None \<Rightarrow> Inr (None, changed2)
                    | Some fs \<Rightarrow> fold (inverseRelationship current) fs (Inr (None, changed2))) of
                Inl e \<Rightarrow> Inl e
              | Inr (rels, changed) \<Rightarrow>
                  (if changed
                   then Inr (Some (ReplaceRecord
                          \<lparr>identity = cloneRecordIdentity (identity replacement),
                           keys = ks, attributes = attrs, relationships = rels\<rparr>))
                   else Inr None)))"

definition inverse_removeRecord :: "Cache \<Rightarrow> RecordIdentity \<Rightarrow> error + RecordOperation option" where
  "inverse_removeRecord cache record =
     (case getRecord cache record of
        Inl e \<Rightarrow> Inl e
      | Inr None \<Rightarrow> Inr None
      | Inr (Some current) \<Rightarrow> Inr (Some (AddRecord current)))"

definition inverse_replaceKey :: "Cache \<Rightarrow> RecordIdentity \<Rightarrow> string \<Rightarrow> jsval \<Rightarrow> error + RecordOperation option" where
  "inverse_replaceKey cache record key v =
     (case getRecord cache record of
        Inl e \<Rightarrow> Inl e
      | Inr r \<Rightarrow>
          (let current = (case r of None \<Rightarrow> JUndefined | Some rec \<Rightarrow> deepGet_key rec key) in
           if \<not> eq current v
           then Inr (Some (ReplaceKey (cloneRecordIdentity record) key current))
           else Inr None))"

text \<open>
  \<^verbatim>\<open>replaceAttribute\<close> destructures \<^verbatim>\<open>type\<close> and \<^verbatim>\<open>id\<close> from the record read from the
  cache, not from the operation: destructuring \<^verbatim>\<open>undefined\<close> is a \<^verbatim>\<open>TypeError\<close>.
\<close>

definition inverse_replaceAttribute :: "Cache \<Rightarrow> RecordIdentity \<Rightarrow> string \<Rightarrow> jsval \<Rightarrow> error + RecordOperation option" where
  "inverse_replaceAttribute cache record attribute v =
     (case getRecord cache record of
        Inl e \<Rightarrow> Inl e
      | Inr r \<Rightarrow>
          (let current = (case r of None \<Rightarrow> JUndefined | Some rec \<Rightarrow> deepGet_attribute rec attribute) in
           if \<not> eq current v
           then (case r of
                   None \<Rightarrow> Inl TypeError
                 | Some rec \<Rightarrow> Inr (Some (ReplaceAttribute (cloneRecordIdentity (identity rec)) attribute current)))
           else Inr None))"

definition inverse_addToRelatedRecords ::
  "Cache \<Rightarrow> RecordIdentity \<Rightarrow> string \<Rightarrow> RecordIdentity \<Rightarrow> error + RecordOperation option" where
  "inverse_addToRelatedRecords cache record rel relatedRecord =
     (case relatedRecordsInclude cache record rel (Inl [relatedRecord]) of
        Inl e \<Rightarrow> Inl e
      | Inr True \<Rightarrow> Inr None
      | Inr False \<Rightarrow> Inr (Some (RemoveFromRelatedRecords record rel relatedRecord)))"

definition inverse_removeFromRelatedRecords ::
  "Cache \<Rightarrow> RecordIdentity \<Rightarrow> string \<Rightarrow> RecordIdentity \<Rightarrow> error + RecordOperation option" where
  "inverse_removeFromRelatedRecords cache record rel relatedRecord =
     (case relatedRecordsInclude cache record rel (Inr relatedRecord) of
        Inl e \<Rightarrow> Inl e
      | Inr True \<Rightarrow> Inr (Some (AddToRelatedRecords record rel relatedRecord))
      | Inr False \<Rightarrow> Inr None)"

definition inverse_replaceRelatedRecords ::
  "Cache \<Rightarrow> RecordIdentity \<Rightarrow> string \<Rightarrow> RelData \<Rightarrow> error + RecordOperation option" where
  "inverse_replaceRelatedRecords cache record rel relatedRecords =
     (case getRelatedRecords cache record rel of
        Inl e \<Rightarrow> Inl e
      | Inr currentRelatedRecords \<Rightarrow>
          (case equalRecordIdentitySets (Some currentRelatedRecords) (Some relatedRecords) of
             Inl e \<Rightarrow> Inl e
           | Inr True \<Rightarrow> Inr None
           | Inr False \<Rightarrow> Inr (Some (ReplaceRelatedRecords record rel currentRelatedRecords))))"

definition inverse_replaceRelatedRecord ::
  "Cache \<Rightarrow> RecordIdentity \<Rightarrow> string \<Rightarrow> RelData \<Rightarrow> error + RecordOperation option" where
  "inverse_replaceRelatedRecord cache record rel relatedRecord =
     (case getRelatedRecord cache record rel of
        Inl e \<Rightarrow> Inl e
      | Inr currentRelatedRecord \<Rightarrow>
          (if \<not> equalRecordIdentities (Some currentRelatedRecord) (Some relatedRecord)
           then Inr (Some (ReplaceRelatedRecord record rel currentRelatedRecord))
           else Inr None))"

text \<open>The table \<^verbatim>\<open>InversePatchOperators\<close>, indexed by the operation's tag.\<close>

fun InversePatchOperators :: "Cache \<Rightarrow> RecordOperation \<Rightarrow> error + RecordOperation option" where
  "InversePatchOperators cache (AddRecord r) = inverse_addRecord cache r"
| "InversePatchOperators cache (ReplaceRecord r) = inverse_replaceRecord cache r"
| "InversePatchOperators cache (RemoveRecord i) = inverse_removeRecord cache i"
| "InversePatchOperators cache (ReplaceKey i k v) = inverse_replaceKey cache i k v"
| "InversePatchOperators cache (ReplaceAttribute i a v) = inverse_replaceAttribute cache i a v"
| "InversePatchOperators cache (AddToRelatedRecords i rel x) = inverse_addToRelatedRecords cache i rel x"
| "InversePatchOperators cache (RemoveFromRelatedRecords i rel x) = inverse_removeFromRelatedRecords cache i rel x"
| "InversePatchOperators cache (ReplaceRelatedRecords i rel xs) = inverse_replaceRelatedRecords cache i rel xs"
| "InversePatchOperators cache (ReplaceRelatedRecord i rel x) = inverse_replaceRelatedRecord cache i rel x"


section \<open>Patch operators (patch-operators.ts)\<close>

text \<open>
  Each operator applies its operation to the cache and returns the resulting record
  or \<^verbatim>\<open>null\<close> (\<open>None\<close>), together with the cache it leaves.
\<close>

type_synonym PatchResultData = "Record option"

text \<open>
  The common opening of six operators: \<^verbatim>\<open>clone(record)\<close> when the cache has the
  record, \<^verbatim>\<open>cloneRecordIdentity(op.record)\<close> otherwise.  The copy takes its addresses
  from the heap, which is returned advanced.
\<close>

definition cloneOrBare :: "Cache \<Rightarrow> Record option \<Rightarrow> RecordIdentity \<Rightarrow> Record \<times> Cache" where
  "cloneOrBare cache r i =
     (case r of
        Some record \<Rightarrow> (case clone record (copies cache) of (copy, n) \<Rightarrow> (copy, cache\<lparr>copies := n\<rparr>))
      | None \<Rightarrow> (bare i, cache))"

definition storeRecord :: "Cache \<Rightarrow> Record \<Rightarrow> error + PatchResultData \<times> Cache" where
  "storeRecord cache record =
     (case setRecord cache record of Inl e \<Rightarrow> Inl e | Inr cache' \<Rightarrow> Inr (Some record, cache'))"

definition storeIfSet :: "Cache \<Rightarrow> bool \<times> Record \<Rightarrow> error + PatchResultData \<times> Cache" where
  "storeIfSet cache sr = (if fst sr then storeRecord cache (snd sr) else Inr (Some (snd sr), cache))"

definition patch_addRecord :: "Cache \<Rightarrow> Record \<Rightarrow> error + PatchResultData \<times> Cache" where
  "patch_addRecord cache record = storeRecord cache record"

definition patch_replaceRecord :: "Cache \<Rightarrow> Record \<Rightarrow> error + PatchResultData \<times> Cache" where
  "patch_replaceRecord cache record =
     (case getRecord cache (identity record) of
        Inl e \<Rightarrow> Inl e
      | Inr currentRecord \<Rightarrow> storeRecord cache (mergeRecords currentRecord record))"

definition patch_removeRecord :: "Cache \<Rightarrow> RecordIdentity \<Rightarrow> error + PatchResultData \<times> Cache" where
  "patch_removeRecord cache record = removeRecord cache record"

definition patch_replaceKey :: "Cache \<Rightarrow> RecordIdentity \<Rightarrow> string \<Rightarrow> jsval \<Rightarrow> error + PatchResultData \<times> Cache" where
  "patch_replaceKey cache i key v =
     (case getRecord cache i of
        Inl e \<Rightarrow> Inl e
      | Inr r \<Rightarrow>
          (case cloneOrBare cache r i of
             (record, cache') \<Rightarrow> storeRecord cache' (deepSet_key record key v)))"

definition patch_replaceAttribute :: "Cache \<Rightarrow> RecordIdentity \<Rightarrow> string \<Rightarrow> jsval \<Rightarrow> error + PatchResultData \<times> Cache" where
  "patch_replaceAttribute cache i attribute v =
     (case getRecord cache i of
        Inl e \<Rightarrow> Inl e
      | Inr r \<Rightarrow>
          (case cloneOrBare cache r i of
             (record, cache') \<Rightarrow> storeRecord cache' (deepSet_attribute record attribute v)))"

text \<open>
  \<^verbatim>\<open>addToRelatedRecords\<close> pushes onto \<^verbatim>\<open>deepGet(...) || []\<close>; an identity found in
  place of the array has no \<^verbatim>\<open>push\<close>.
\<close>

definition patch_addToRelatedRecords ::
  "Cache \<Rightarrow> RecordIdentity \<Rightarrow> string \<Rightarrow> RecordIdentity \<Rightarrow> error + PatchResultData \<times> Cache" where
  "patch_addToRelatedRecords cache i rel relatedRecord =
     (case getRecord cache i of
        Inl e \<Rightarrow> Inl e
      | Inr r \<Rightarrow>
          (case cloneOrBare cache r i of
             (record, cache') \<Rightarrow>
               (case deepGet_data record rel of
                  Some (DataOne _) \<Rightarrow> Inl TypeError
                | Some (DataMany relatedRecords) \<Rightarrow>
                    storeRecord cache'
                      (snd (deepSet_data record rel (DataMany (relatedRecords @ [relatedRecord]))))
                | _ \<Rightarrow> storeRecord cache' (snd (deepSet_data record rel (DataMany [relatedRecord]))))))"

definition patch_removeFromRelatedRecords ::
  "Cache \<Rightarrow> RecordIdentity \<Rightarrow> string \<Rightarrow> RecordIdentity \<Rightarrow> error + PatchResultData \<times> Cache" where
  "patch_removeFromRelatedRecords cache i rel relatedRecord =
     (case getRecord cache i of
        Inl e \<Rightarrow> Inl e
      | Inr None \<Rightarrow> Inr (None, cache)
      | Inr (Some r) \<Rightarrow>
          (case cloneOrBare cache (Some r) i of
             (record, cache') \<Rightarrow>
               (case deepGet_data record rel of
                  Some (DataOne _) \<Rightarrow> Inl TypeError
                | Some (DataMany relatedRecords) \<Rightarrow>
                    storeIfSet cache'
                      (deepSet_data record rel
                         (DataMany (filter (\<lambda>r. \<not> equalRecordIdentities (one r) (one relatedRecord))
                                      relatedRecords)))
                | _ \<Rightarrow> Inr (Some record, cache'))))"

definition patch_replaceRelatedRecords ::
  "Cache \<Rightarrow> RecordIdentity \<Rightarrow> string \<Rightarrow> RelData \<Rightarrow> error + PatchResultData \<times> Cache" where
  "patch_replaceRelatedRecords cache i rel relatedRecords =
     (case getRecord cache i of
        Inl e \<Rightarrow> Inl e
      | Inr r \<Rightarrow>
          (case cloneOrBare cache r i of
             (record, cache') \<Rightarrow> storeIfSet cache' (deepSet_data record rel relatedRecords)))"

definition patch_replaceRelatedRecord ::
  "Cache \<Rightarrow> RecordIdentity \<Rightarrow> string \<Rightarrow> RelData \<Rightarrow> error + PatchResultData \<times> Cache" where
  "patch_replaceRelatedRecord cache i rel relatedRecord =
     (case getRecord cache i of
        Inl e \<Rightarrow> Inl e
      | Inr r \<Rightarrow>
          (case cloneOrBare cache r i of
             (record, cache') \<Rightarrow> storeIfSet cache' (deepSet_data record rel relatedRecord)))"

text \<open>The table \<^verbatim>\<open>PatchOperators\<close>, indexed by the operation's tag.\<close>

fun PatchOperators :: "Cache \<Rightarrow> RecordOperation \<Rightarrow> error + PatchResultData \<times> Cache" where
  "PatchOperators cache (AddRecord r) = patch_addRecord cache r"
| "PatchOperators cache (ReplaceRecord r) = patch_replaceRecord cache r"
| "PatchOperators cache (RemoveRecord i) = patch_removeRecord cache i"
| "PatchOperators cache (ReplaceKey i k v) = patch_replaceKey cache i k v"
| "PatchOperators cache (ReplaceAttribute i a v) = patch_replaceAttribute cache i a v"
| "PatchOperators cache (AddToRelatedRecords i rel x) = patch_addToRelatedRecords cache i rel x"
| "PatchOperators cache (RemoveFromRelatedRecords i rel x) = patch_removeFromRelatedRecords cache i rel x"
| "PatchOperators cache (ReplaceRelatedRecords i rel xs) = patch_replaceRelatedRecords cache i rel xs"
| "PatchOperators cache (ReplaceRelatedRecord i rel x) = patch_replaceRelatedRecord cache i rel x"


section \<open>Query operators (query-operators.ts)\<close>

subsection \<open>The relational operators of JavaScript\<close>

text \<open>
  The comparison \<^verbatim>\<open>a < b\<close> converts both operands to primitives, compares two strings
  by their code units and anything else as numbers; its result is undefined (\<open>None\<close>)
  when one of the numbers is \<^verbatim>\<open>NaN\<close>.  The conversion of an object to a primitive and
  of a string to a number are parameters of the model.
\<close>

record Coercion =
  toPrimitive :: "jsval \<Rightarrow> jsval"
  stringToNumber :: "string \<Rightarrow> int option"

fun string_less :: "string \<Rightarrow> string \<Rightarrow> bool" where
  "string_less [] [] = False"
| "string_less [] (y # ys) = True"
| "string_less (x # xs) [] = False"
| "string_less (x # xs) (y # ys) =
     (if x = y then string_less xs ys else (of_char x :: nat) < of_char y)"

fun toNumber :: "Coercion \<Rightarrow> jsval \<Rightarrow> int option" where
  "toNumber cv JUndefined = None"
| "toNumber cv JNull = Some 0"
| "toNumber cv (JBool b) = Some (if b then 1 else 0)"
| "toNumber cv (JNum n) = Some n"
| "toNumber cv (JStr s) = stringToNumber cv s"
| "toNumber cv (JArr _ _) = None"
| "toNumber cv (JObj _ _) = None"

definition primitive :: "Coercion \<Rightarrow> jsval \<Rightarrow> jsval" where
  "primitive cv v = (case v of JArr _ _ \<Rightarrow> toPrimitive cv v | JObj _ _ \<Rightarrow> toPrimitive cv v | _ \<Rightarrow> v)"

definition js_less :: "Coercion \<Rightarrow> jsval \<Rightarrow> jsval \<Rightarrow> bool option" where
  "js_less cv a b =
     (case (primitive cv a, primitive cv b) of
        (JStr x, JStr y) \<Rightarrow> Some (string_less x y)
      | (pa, pb) \<Rightarrow>
          (case (toNumber cv pa, toNumber cv pb) of
             (Some x, Some y) \<Rightarrow> Some (x < y)
           | _ \<Rightarrow> None))"

text \<open>\<^verbatim>\<open>a < b\<close>, \<^verbatim>\<open>a > b\<close>, \<^verbatim>\<open>a <= b\<close> and \<^verbatim>\<open>a >= b\<close>.\<close>

definition js_lt :: "Coercion \<Rightarrow> jsval \<Rightarrow> jsval \<Rightarrow> bool" where
  "js_lt cv a b = (js_less cv a b = Some True)"

definition js_gt :: "Coercion \<Rightarrow> jsval \<Rightarrow> jsval \<Rightarrow> bool" where
  "js_gt cv a b = (js_less cv b a = Some True)"

definition js_lte :: "Coercion \<Rightarrow> jsval \<Rightarrow> jsval \<Rightarrow> bool" where
  "js_lte cv a b = (js_less cv b a = Some False)"

definition js_gte :: "Coercion \<Rightarrow> jsval \<Rightarrow> jsval \<Rightarrow> bool" where
  "js_gte cv a b = (js_less cv a b = Some False)"

subsection \<open>Filters\<close>

text \<open>
  A filter specifier by its \<^verbatim>\<open>kind\<close>; the operator is kept as the string the
  expression carries.  The expected value of a \<^verbatim>\<open>relatedRecord\<close> filter is an array
  (\<open>Inl\<close>) or one identity (\<open>Inr\<close>).
\<close>

datatype FilterSpecifier =
    AttributeFilter string string jsval
  | RelatedRecordsFilter string string "RecordIdentity list"
  | RelatedRecordFilter string string "RecordIdentity list + RecordIdentity"
  | OtherFilter

definition sameIdentity :: "RecordIdentity \<Rightarrow> RecordIdentity \<Rightarrow> bool" where
  "sameIdentity a e = (rid a = rid e \<and> rtype a = rtype e)"

fun applyFilter :: "Coercion \<Rightarrow> Record \<Rightarrow> FilterSpecifier \<Rightarrow> error + bool" where
  "applyFilter cv record (AttributeFilter attribute oper expected) =
     (let actual = deepGet_attribute record attribute in
      if oper = ''equal'' then Inr (strict_eq actual expected)
      else if oper = ''gt'' then Inr (js_gt cv actual expected)
      else if oper = ''gte'' then Inr (js_gte cv actual expected)
      else if oper = ''lt'' then Inr (js_lt cv actual expected)
      else if oper = ''lte'' then Inr (js_lte cv actual expected)
      else Inl QueryExpressionParseError)"
| "applyFilter cv record (RelatedRecordsFilter relation oper expected) =
     (let actual = (case relationships record of
                      None \<Rightarrow> DataMany []
                    | Some rs \<Rightarrow> (case dict_get rs relation of None \<Rightarrow> DataMany [] | Some d \<Rightarrow> d))
      in if oper \<in> {''equal'', ''all'', ''some'', ''none''} then
           (case actual of
              DataMany acts \<Rightarrow>
                (if oper = ''equal'' then
                   Inr (length acts = length expected \<and> list_all (\<lambda>e. list_ex (\<lambda>a. sameIdentity a e) acts) expected)
                 else if oper = ''all'' then
                   Inr (list_all (\<lambda>e. list_ex (\<lambda>a. sameIdentity a e) acts) expected)
                 else if oper = ''some'' then
                   Inr (list_ex (\<lambda>e. list_ex (\<lambda>a. sameIdentity a e) acts) expected)
                 else
                   Inr (\<not> list_ex (\<lambda>e. list_ex (\<lambda>a. sameIdentity a e) acts) expected))
            | DataOne _ \<Rightarrow>
                (if oper = ''equal'' then Inr False
                 else if expected \<noteq> [] then Inl TypeError
                 else Inr (oper \<noteq> ''some''))
            | DataNull \<Rightarrow>
                (if oper = ''equal'' \<or> expected \<noteq> [] then Inl TypeError
                 else Inr (oper \<noteq> ''some'')))
         else Inl QueryExpressionParseError)"
| "applyFilter cv record (RelatedRecordFilter relation oper expected) =
     (let actual = (case relationships record of
                      None \<Rightarrow> None
                    | Some rs \<Rightarrow> dict_get rs relation)
      in if oper = ''equal'' then
           (case actual of
              None \<Rightarrow> Inr False
            | Some DataNull \<Rightarrow>
                (case expected of
                   Inl es \<Rightarrow> (if es = [] then Inr False else Inl TypeError)
                 | Inr e \<Rightarrow> Inl TypeError)
            | Some (DataOne a) \<Rightarrow>
                (case expected of
                   Inl es \<Rightarrow> Inr (list_ex (\<lambda>e. rtype a = rtype e \<and> rid a = rid e) es)
                 | Inr e \<Rightarrow> Inr (rtype a = rtype e \<and> rid a = rid e))
            | Some (DataMany _) \<Rightarrow> Inr False)
         else Inl QueryExpressionParseError)"
| "applyFilter cv record OtherFilter = Inr False"


text \<open>
  \<^verbatim>\<open>filterRecords\<close>: a record is kept when every filter holds; the loop over the
  filters stops at the first one that fails.
\<close>

fun passesFilters :: "Coercion \<Rightarrow> Record \<Rightarrow> FilterSpecifier list \<Rightarrow> error + bool" where
  "passesFilters cv record [] = Inr True"
| "passesFilters cv record (f # fs) =
     (case applyFilter cv record f of
        Inl e \<Rightarrow> Inl e
      | Inr False \<Rightarrow> Inr False
      | Inr True \<Rightarrow> passesFilters cv record fs)"

fun filterRecords :: "Coercion \<Rightarrow> Record list \<Rightarrow> FilterSpecifier list \<Rightarrow> error + Record list" where
  "filterRecords cv [] filters = Inr []"
| "filterRecords cv (r # rs) filters =
     (case passesFilters cv r filters of
        Inl e \<Rightarrow> Inl e
      | Inr keep \<Rightarrow>
          (case filterRecords cv rs filters of
             Inl e \<Rightarrow> Inl e
           | Inr rest \<Rightarrow> Inr (if keep then r # rest else rest)))"

subsection \<open>Sorting\<close>

datatype SortSpecifier = AttributeSort string string | OtherSort

definition isNone_value :: "jsval \<Rightarrow> bool" where
  "isNone_value v = (v = JUndefined \<or> v = JNull)"

fun comparisonValue :: "Record \<Rightarrow> SortSpecifier \<Rightarrow> error + jsval" where
  "comparisonValue record (AttributeSort attribute ord) = Inr (deepGet_attribute record attribute)"
| "comparisonValue record OtherSort = Inl QueryExpressionParseError"

fun comparisonValues :: "Record \<Rightarrow> SortSpecifier list \<Rightarrow> error + jsval list" where
  "comparisonValues record [] = Inr []"
| "comparisonValues record (sp # sps) =
     (case comparisonValue record sp of
        Inl e \<Rightarrow> Inl e
      | Inr v \<Rightarrow> (case comparisonValues record sps of Inl e \<Rightarrow> Inl e | Inr vs \<Rightarrow> Inr (v # vs)))"

fun allComparisonValues :: "Record list \<Rightarrow> SortSpecifier list \<Rightarrow> error + (Record \<times> jsval list) list" where
  "allComparisonValues [] sps = Inr []"
| "allComparisonValues (r # rs) sps =
     (case comparisonValues r sps of
        Inl e \<Rightarrow> Inl e
      | Inr vs \<Rightarrow> (case allComparisonValues rs sps of Inl e \<Rightarrow> Inl e | Inr rest \<Rightarrow> Inr ((r, vs) # rest)))"

fun comparisonOrder :: "SortSpecifier \<Rightarrow> int" where
  "comparisonOrder (AttributeSort attribute ord) = (if ord = ''descending'' then - 1 else 1)"
| "comparisonOrder OtherSort = 1"

text \<open>The comparison function handed to \<^verbatim>\<open>sort\<close>, on the values of two records.\<close>

fun compareValues :: "Coercion \<Rightarrow> int list \<Rightarrow> jsval list \<Rightarrow> jsval list \<Rightarrow> int" where
  "compareValues cv (ord # ords) (v1 # values1) (v2 # values2) =
     (if js_lt cv v1 v2 then - ord
      else if js_gt cv v1 v2 then ord
      else if isNone_value v1 \<and> \<not> isNone_value v2 then ord
      else if isNone_value v2 \<and> \<not> isNone_value v1 then - ord
      else compareValues cv ords values1 values2)"
| "compareValues cv _ _ _ = 0"

text \<open>
  \<^verbatim>\<open>Array.prototype.sort\<close> is a stable sort: the model inserts each record, from the last
  to the first, before the first record that it does not follow.
\<close>

fun insertBy :: "('a \<Rightarrow> 'a \<Rightarrow> int) \<Rightarrow> 'a \<Rightarrow> 'a list \<Rightarrow> 'a list" where
  "insertBy cmp x [] = [x]"
| "insertBy cmp x (y # ys) = (if cmp x y \<le> 0 then x # y # ys else y # insertBy cmp x ys)"

definition sortBy :: "('a \<Rightarrow> 'a \<Rightarrow> int) \<Rightarrow> 'a list \<Rightarrow> 'a list" where
  "sortBy cmp xs = foldr (insertBy cmp) xs []"

definition sortRecords :: "Coercion \<Rightarrow> Record list \<Rightarrow> SortSpecifier list \<Rightarrow> error + Record list" where
  "sortRecords cv rs sortSpecifiers =
     (case allComparisonValues rs sortSpecifiers of
        Inl e \<Rightarrow> Inl e
      | Inr valued \<Rightarrow>
          Inr (map fst
                 (sortBy (\<lambda>a b. compareValues cv (map comparisonOrder sortSpecifiers) (snd a) (snd b)) valued)))"

subsection \<open>Pagination\<close>

record PageSpecifier =
  offset :: "int option"
  limit :: "int option"

text \<open>
  \<^verbatim>\<open>Array.prototype.slice(start, end)\<close>: a negative index counts from the end of the
  array, and both indices are clamped to the array.
\<close>

definition slice_index :: "nat \<Rightarrow> int \<Rightarrow> nat" where
  "slice_index n i = (if i < 0 then nat (max (int n + i) 0) else min (nat i) n)"

definition slice :: "'a list \<Rightarrow> int \<Rightarrow> int \<Rightarrow> 'a list" where
  "slice xs start end =
     (let k = slice_index (length xs) start; final = slice_index (length xs) end
      in take (final - k) (drop k xs))"

definition paginateRecords :: "'a list \<Rightarrow> PageSpecifier \<Rightarrow> error + 'a list" where
  "paginateRecords rs paginationOptions =
     (case limit paginationOptions of
        Some l \<Rightarrow>
          (let off = (case offset paginationOptions of None \<Rightarrow> 0 | Some x \<Rightarrow> x)
           in Inr (slice rs off (off + l)))
      | None \<Rightarrow> Inl QueryExpressionParseError)"

subsection \<open>The four query operators\<close>

datatype QueryExpression =
    FindRecord RecordIdentity
  | FindRecords "string option" "FilterSpecifier list option" "SortSpecifier list option" "PageSpecifier option"
  | FindRelatedRecord RecordIdentity string
  | FindRelatedRecords RecordIdentity string

text \<open>
  What a query returns: one record or \<^verbatim>\<open>undefined\<close> (\<open>OneRecord None\<close>), \<^verbatim>\<open>null\<close>, or
  an array whose entries are records or \<^verbatim>\<open>undefined\<close>.
\<close>

datatype QueryResult =
    OneRecord "Record option"
  | NullResult
  | ManyRecords "Record option list"

definition findRecord :: "Cache \<Rightarrow> RecordIdentity \<Rightarrow> error + QueryResult" where
  "findRecord cache record =
     (case getRecord cache record of
        Inl e \<Rightarrow> Inl e
      | Inr None \<Rightarrow> Inl (RecordNotFoundException (rtype record) (rid record))
      | Inr (Some currentRecord) \<Rightarrow> Inr (OneRecord (Some currentRecord)))"

definition findRecords ::
  "Coercion \<Rightarrow> Cache \<Rightarrow> string option \<Rightarrow> FilterSpecifier list option \<Rightarrow> SortSpecifier list option \<Rightarrow>
   PageSpecifier option \<Rightarrow> error + QueryResult" where
  "findRecords cv cache t filters sorts page =
     (case (case t of None \<Rightarrow> Inl TypeError | Some ty \<Rightarrow> getRecords cache ty) of
        Inl e \<Rightarrow> Inl e
      | Inr results \<Rightarrow>
          (case (case filters of None \<Rightarrow> Inr results | Some fs \<Rightarrow> filterRecords cv results fs) of
             Inl e \<Rightarrow> Inl e
           | Inr filtered \<Rightarrow>
               (case (case sorts of None \<Rightarrow> Inr filtered | Some sps \<Rightarrow> sortRecords cv filtered sps) of
                  Inl e \<Rightarrow> Inl e
                | Inr ordered \<Rightarrow>
                    (case (case page of None \<Rightarrow> Inr ordered | Some pg \<Rightarrow> paginateRecords ordered pg) of
                       Inl e \<Rightarrow> Inl e
                     | Inr paged \<Rightarrow> Inr (ManyRecords (map Some paged))))))"

fun getEach :: "Cache \<Rightarrow> RecordIdentity list \<Rightarrow> error + Record option list" where
  "getEach cache [] = Inr []"
| "getEach cache (i # is) =
     (case getRecord cache i of
        Inl e \<Rightarrow> Inl e
      | Inr r \<Rightarrow> (case getEach cache is of Inl e \<Rightarrow> Inl e | Inr rs \<Rightarrow> Inr (r # rs)))"

definition findRelatedRecords :: "Cache \<Rightarrow> RecordIdentity \<Rightarrow> string \<Rightarrow> error + QueryResult" where
  "findRelatedRecords cache record rel =
     (case getRelatedRecords cache record rel of
        Inl e \<Rightarrow> Inl e
      | Inr (DataMany relatedIds) \<Rightarrow>
          (case getEach cache relatedIds of Inl e \<Rightarrow> Inl e | Inr rs \<Rightarrow> Inr (ManyRecords rs))
      | Inr _ \<Rightarrow> Inl TypeError)"

definition findRelatedRecord :: "Cache \<Rightarrow> RecordIdentity \<Rightarrow> string \<Rightarrow> error + QueryResult" where
  "findRelatedRecord cache record rel =
     (case getRelatedRecord cache record rel of
        Inl e \<Rightarrow> Inl e
      | Inr DataNull \<Rightarrow> Inr NullResult
      | Inr (DataOne relatedId) \<Rightarrow>
          (case getRecord cache relatedId of Inl e \<Rightarrow> Inl e | Inr r \<Rightarrow> Inr (OneRecord r))
      | Inr (DataMany _) \<Rightarrow> Inl TypeError)"

fun query :: "Coercion \<Rightarrow> Cache \<Rightarrow> QueryExpression \<Rightarrow> error + QueryResult" where
  "query cv cache (FindRecord record) = findRecord cache record"
| "query cv cache (FindRecords t filters sorts page) = findRecords cv cache t filters sorts page"
| "query cv cache (FindRelatedRecord record rel) = findRelatedRecord cache record rel"
| "query cv cache (FindRelatedRecords record rel) = findRelatedRecords cache record rel"


section \<open>Operation processors\<close>

text \<open>
  Modelled from the spec: the base class of the processors is not among the sources.
  A processor has the hooks \<^verbatim>\<open>validate\<close>, \<^verbatim>\<open>before\<close>, \<^verbatim>\<open>after\<close>, \<^verbatim>\<open>immediate\<close> and
  \<^verbatim>\<open>finally\<close>.  \<^verbatim>\<open>validate\<close> accepts the operation or raises; \<^verbatim>\<open>before\<close>, \<^verbatim>\<open>after\<close>
  and \<^verbatim>\<open>finally\<close> return operations and may write to the cache; \<^verbatim>\<open>immediate\<close> runs
  for its effect only.
\<close>

record Processor =
  validateHook :: "Cache \<Rightarrow> RecordOperation \<Rightarrow> error option"
  beforeHook :: "Cache \<Rightarrow> RecordOperation \<Rightarrow> error + RecordOperation list \<times> Cache"
  afterHook :: "Cache \<Rightarrow> RecordOperation \<Rightarrow> error + RecordOperation list \<times> Cache"
  immediateHook :: "Cache \<Rightarrow> RecordOperation \<Rightarrow> error + Cache"
  finallyHook :: "Cache \<Rightarrow> RecordOperation \<Rightarrow> error + RecordOperation list \<times> Cache"

subsection \<open>The cache integrity processor (cache-integrity-processor.ts)\<close>

text \<open>A loop over identities that writes to the cache and stops at the first error.\<close>

fun forEachIdentity ::
  "(Cache \<Rightarrow> RecordIdentity \<Rightarrow> error + Cache) \<Rightarrow> RecordIdentity list \<Rightarrow> Cache \<Rightarrow> error + Cache" where
  "forEachIdentity f [] cache = Inr cache"
| "forEachIdentity f (i # is) cache =
     (case f cache i of Inl e \<Rightarrow> Inl e | Inr cache' \<Rightarrow> forEachIdentity f is cache')"

text \<open>
  \<^verbatim>\<open>relationshipDef.inverse\<close> for the definition found in the schema; reading a member
  of a definition that does not exist is a \<^verbatim>\<open>TypeError\<close>.
\<close>

definition declaresInverse :: "Cache \<Rightarrow> RecordIdentity \<Rightarrow> string \<Rightarrow> error + bool" where
  "declaresInverse cache record rel =
     (case relationshipDef (schema cache) (rtype record) rel of
        Inl e \<Rightarrow> Inl e
      | Inr None \<Rightarrow> Inl TypeError
      | Inr (Some d) \<Rightarrow> Inr (hasInverse d))"

text \<open>An array used where an identity is expected has no \<^verbatim>\<open>type\<close>: the cache has no map for it.\<close>

definition addInverseRelationship :: "Cache \<Rightarrow> RecordIdentity \<Rightarrow> string \<Rightarrow> RelData \<Rightarrow> error + Cache" where
  "addInverseRelationship cache record rel relatedRecord =
     (case relatedRecord of
        DataNull \<Rightarrow> Inr cache
      | _ \<Rightarrow>
          (case declaresInverse cache record rel of
             Inl e \<Rightarrow> Inl e
           | Inr False \<Rightarrow> Inr cache
           | Inr True \<Rightarrow>
               (case relatedRecord of
                  DataOne r \<Rightarrow>
                    addInverselyRelatedRecord cache r (RelatedRecordIdentity (cloneRecordIdentity record) rel)
                | _ \<Rightarrow> Inl TypeError)))"

definition addInverseRelationships :: "Cache \<Rightarrow> RecordIdentity \<Rightarrow> string \<Rightarrow> RelData \<Rightarrow> error + Cache" where
  "addInverseRelationships cache record rel relatedRecords =
     (case relatedRecords of
        DataMany (r # rs) \<Rightarrow>
          (case declaresInverse cache record rel of
             Inl e \<Rightarrow> Inl e
           | Inr False \<Rightarrow> Inr cache
           | Inr True \<Rightarrow>
               forEachIdentity
                 (\<lambda>c relatedRecord.
                    addInverselyRelatedRecord c relatedRecord (RelatedRecordIdentity (cloneRecordIdentity record) rel))
                 (r # rs) cache)
      | _ \<Rightarrow> Inr cache)"

text \<open>The body of the loops over the relationships of a record: one relationship's data.\<close>

definition forRelationshipData ::
  "(Cache \<Rightarrow> RecordIdentity \<Rightarrow> error + Cache) \<Rightarrow> RelData \<Rightarrow> Cache \<Rightarrow> error + Cache" where
  "forRelationshipData f relationshipData cache =
     (case relationshipData of
        DataNull \<Rightarrow> Inr cache
      | DataMany relatedRecords \<Rightarrow> forEachIdentity f relatedRecords cache
      | DataOne relatedRecord \<Rightarrow> f cache relatedRecord)"

fun forEachRelationship ::
  "(string \<Rightarrow> Cache \<Rightarrow> RecordIdentity \<Rightarrow> error + Cache) \<Rightarrow> RelData dict \<Rightarrow> Cache \<Rightarrow> error + Cache" where
  "forEachRelationship f [] cache = Inr cache"
| "forEachRelationship f (kv # rest) cache =
     (case forRelationshipData (f (fst kv)) (snd kv) cache of
        Inl e \<Rightarrow> Inl e
      | Inr cache' \<Rightarrow> forEachRelationship f rest cache')"

definition addAllInverseRelationships :: "Cache \<Rightarrow> Record \<Rightarrow> error + Cache" where
  "addAllInverseRelationships cache record =
     (case relationships record of
        None \<Rightarrow> Inr cache
      | Some rels \<Rightarrow>
          forEachRelationship
            (\<lambda>rel c relatedRecord.
               addInverselyRelatedRecord c relatedRecord
                 (RelatedRecordIdentity (cloneRecordIdentity (identity record)) rel))
            rels cache)"

text \<open>
  \<^verbatim>\<open>removeInverseRelationship\<close>: the related record is given (\<open>Some\<close>) or read from the
  cache when the argument is \<^verbatim>\<open>undefined\<close> (\<open>None\<close>).
\<close>

definition removeInverseRelationship ::
  "Cache \<Rightarrow> RecordIdentity \<Rightarrow> string \<Rightarrow> RecordIdentity option \<Rightarrow> error + Cache" where
  "removeInverseRelationship cache record rel relatedRecord =
     (case declaresInverse cache record rel of
        Inl e \<Rightarrow> Inl e
      | Inr False \<Rightarrow> Inr cache
      | Inr True \<Rightarrow>
          (case relatedRecord of
             Some r \<Rightarrow> removeInverselyRelatedRecord cache r (RelatedRecordIdentity record rel)
           | None \<Rightarrow>
               (case getRecord cache record of
                  Inl e \<Rightarrow> Inl e
                | Inr None \<Rightarrow> Inr cache
                | Inr (Some currentRecord) \<Rightarrow>
                    (case deepGet_data currentRecord rel of
                       Some (DataOne r) \<Rightarrow> removeInverselyRelatedRecord cache r (RelatedRecordIdentity record rel)
                     | Some (DataMany _) \<Rightarrow> Inl TypeError
                     | _ \<Rightarrow> Inr cache))))"

text \<open>
  The processor's own \<^verbatim>\<open>removeInverseRelationships\<close>, always called without the
  related records: they are read from the cache.
\<close>

definition removeInverseRelationshipsOf :: "Cache \<Rightarrow> RecordIdentity \<Rightarrow> string \<Rightarrow> error + Cache" where
  "removeInverseRelationshipsOf cache record rel =
     (case declaresInverse cache record rel of
        Inl e \<Rightarrow> Inl e
      | Inr False \<Rightarrow> Inr cache
      | Inr True \<Rightarrow>
          (case getRecord cache record of
             Inl e \<Rightarrow> Inl e
           | Inr None \<Rightarrow> Inr cache
           | Inr (Some currentRecord) \<Rightarrow>
               (case deepGet_data currentRecord rel of
                  Some (DataMany relatedRecords) \<Rightarrow>
                    forEachIdentity
                      (\<lambda>c relatedRecord. removeInverselyRelatedRecord c relatedRecord (RelatedRecordIdentity record rel))
                      relatedRecords cache
                | Some (DataOne _) \<Rightarrow> Inl TypeError
                | _ \<Rightarrow> Inr cache)))"

definition removeAllInverseRelationships :: "Cache \<Rightarrow> RecordIdentity \<Rightarrow> error + Cache" where
  "removeAllInverseRelationships cache record =
     (case getRecord cache record of
        Inl e \<Rightarrow> Inl e
      | Inr recordInCache \<Rightarrow>
          (case (case (case recordInCache of None \<Rightarrow> None | Some r \<Rightarrow> relationships r) of
                   None \<Rightarrow> Inr cache
                 | Some rels \<Rightarrow>
                     forEachRelationship
                       (\<lambda>rel c relatedRecord.
                          removeInverselyRelatedRecord c relatedRecord (RelatedRecordIdentity record rel))
                       rels cache) of
             Inl e \<Rightarrow> Inl e
           | Inr cache' \<Rightarrow> removeInverseRelationships cache' record))"

fun clearOps :: "Cache \<Rightarrow> RecordIdentity \<Rightarrow> RelatedRecordIdentity list \<Rightarrow> error + RecordOperation list" where
  "clearOps cache recordIdentity [] = Inr []"
| "clearOps cache recordIdentity (rel # rels) =
     (case relationshipDef (schema cache) (rtype (rel_record rel)) (relationship rel) of
        Inl e \<Rightarrow> Inl e
      | Inr None \<Rightarrow> Inl TypeError
      | Inr (Some d) \<Rightarrow>
          (case clearOps cache recordIdentity rels of
             Inl e \<Rightarrow> Inl e
           | Inr ops \<Rightarrow>
               Inr ((if rel_type d = ''hasMany''
                     then RemoveFromRelatedRecords (rel_record rel) (relationship rel) recordIdentity
                     else ReplaceRelatedRecord (rel_record rel) (relationship rel) DataNull) # ops)))"

definition clearInverseRelationshipOps :: "Cache \<Rightarrow> RecordIdentity \<Rightarrow> error + RecordOperation list" where
  "clearInverseRelationshipOps cache record =
     (case getInverselyRelatedRecords cache record of
        Inl e \<Rightarrow> Inl e
      | Inr inverseRels \<Rightarrow> clearOps cache (cloneRecordIdentity record) inverseRels)"

definition noOps :: "error + Cache \<Rightarrow> error + RecordOperation list \<times> Cache" where
  "noOps r = (case r of Inl e \<Rightarrow> Inl e | Inr cache \<Rightarrow> Inr ([], cache))"

fun integrity_after :: "Cache \<Rightarrow> RecordOperation \<Rightarrow> error + RecordOperation list \<times> Cache" where
  "integrity_after cache (ReplaceRelatedRecord record rel x) = noOps (removeInverseRelationship cache record rel None)"
| "integrity_after cache (ReplaceRelatedRecords record rel xs) = noOps (removeInverseRelationshipsOf cache record rel)"
| "integrity_after cache (RemoveFromRelatedRecords record rel x) =
     noOps (removeInverseRelationship cache record rel (Some x))"
| "integrity_after cache (RemoveRecord record) =
     (case clearInverseRelationshipOps cache record of
        Inl e \<Rightarrow> Inl e
      | Inr ops \<Rightarrow>
          (case removeAllInverseRelationships cache record of
             Inl e \<Rightarrow> Inl e
           | Inr cache' \<Rightarrow> Inr (ops, cache')))"
| "integrity_after cache (ReplaceRecord record) = noOps (removeAllInverseRelationships cache (identity record))"
| "integrity_after cache _ = Inr ([], cache)"

fun integrity_finally :: "Cache \<Rightarrow> RecordOperation \<Rightarrow> error + RecordOperation list \<times> Cache" where
  "integrity_finally cache (ReplaceRelatedRecord record rel x) = noOps (addInverseRelationship cache record rel x)"
| "integrity_finally cache (ReplaceRelatedRecords record rel xs) = noOps (addInverseRelationships cache record rel xs)"
| "integrity_finally cache (AddToRelatedRecords record rel x) =
     noOps (addInverseRelationship cache record rel (DataOne x))"
| "integrity_finally cache (AddRecord record) = noOps (addAllInverseRelationships cache record)"
| "integrity_finally cache (ReplaceRecord record) = noOps (addAllInverseRelationships cache record)"
| "integrity_finally cache _ = Inr ([], cache)"

text \<open>The hooks that the processor does not override do nothing.\<close>

definition CacheIntegrityProcessor :: Processor where
  "CacheIntegrityProcessor =
     \<lparr>validateHook = (\<lambda>cache operation. None),
      beforeHook = (\<lambda>cache operation. Inr ([], cache)),
      afterHook = integrity_after,
      immediateHook = (\<lambda>cache operation. Inr cache),
      finallyHook = integrity_finally\<rparr>"


section \<open>The patch pipeline (sync-record-cache.ts)\<close>

record PatchResult =
  inverse_ops :: "RecordOperation list"
  data :: "PatchResultData list"

text \<open>\<^verbatim>\<open>this._processors.forEach(processor => processor.validate(operation))\<close>.\<close>

fun validateAll :: "Processor list \<Rightarrow> Cache \<Rightarrow> RecordOperation \<Rightarrow> error option" where
  "validateAll [] cache operation = None"
| "validateAll (p # ps) cache operation =
     (case validateHook p cache operation of
        Some e \<Rightarrow> Some e
      | None \<Rightarrow> validateAll ps cache operation)"

text \<open>
  \<^verbatim>\<open>this._processors.map(processor => processor.before(operation))\<close>, and the same for
  \<^verbatim>\<open>after\<close> and \<^verbatim>\<open>finally\<close>: every hook runs before any of the operations returned is
  applied.  The lists returned are applied one after the other, that is, as one list.
\<close>

fun mapHooks ::
  "(Processor \<Rightarrow> Cache \<Rightarrow> RecordOperation \<Rightarrow> error + RecordOperation list \<times> Cache) \<Rightarrow>
   Processor list \<Rightarrow> Cache \<Rightarrow> RecordOperation \<Rightarrow> error + RecordOperation list \<times> Cache" where
  "mapHooks hook [] cache operation = Inr ([], cache)"
| "mapHooks hook (p # ps) cache operation =
     (case hook p cache operation of
        Inl e \<Rightarrow> Inl e
      | Inr (ops, cache') \<Rightarrow>
          (case mapHooks hook ps cache' operation of
             Inl e \<Rightarrow> Inl e
           | Inr (rest, cache'') \<Rightarrow> Inr (ops @ rest, cache'')))"

fun forEachImmediate :: "Processor list \<Rightarrow> Cache \<Rightarrow> RecordOperation \<Rightarrow> error + Cache" where
  "forEachImmediate [] cache operation = Inr cache"
| "forEachImmediate (p # ps) cache operation =
     (case immediateHook p cache operation of
        Inl e \<Rightarrow> Inl e
      | Inr cache' \<Rightarrow> forEachImmediate ps cache' operation)"

text \<open>
  \<^verbatim>\<open>_applyOperation\<close> and \<^verbatim>\<open>_applyOperations\<close>.  The operations that the hooks return
  are applied by recursion, which the source does not bound: the first argument bounds
  its depth, and the result is \<open>None\<close> when the bound is reached.  An error ends the
  patch; the \<^verbatim>\<open>patch\<close> event is not modelled.
\<close>

fun applyOperation ::
    "nat \<Rightarrow> Processor list \<Rightarrow> Cache \<Rightarrow> RecordOperation \<Rightarrow> PatchResult \<Rightarrow> bool \<Rightarrow>
     (error + Cache \<times> PatchResult) option"
  and applyOperations ::
    "nat \<Rightarrow> Processor list \<Rightarrow> Cache \<Rightarrow> RecordOperation list \<Rightarrow> PatchResult \<Rightarrow> bool \<Rightarrow>
     (error + Cache \<times> PatchResult) option" where
  "applyOperation 0 processors cache operation result primary = None"
| "applyOperation (Suc n) processors cache operation result primary =
     (case validateAll processors cache operation of
        Some e \<Rightarrow> Some (Inl e)
      | None \<Rightarrow>
     (case InversePatchOperators cache operation of
        Inl e \<Rightarrow> Some (Inl e)
      | Inr None \<Rightarrow>
          Some (Inr (cache, if primary then result\<lparr>data := data result @ [None]\<rparr> else result))
      | Inr (Some inverseOp) \<Rightarrow>
     (let result1 = result\<lparr>inverse_ops := inverse_ops result @ [inverseOp]\<rparr> in
      case mapHooks beforeHook processors cache operation of
        Inl e \<Rightarrow> Some (Inl e)
      | Inr (beforeOps, cache1) \<Rightarrow>
     (case applyOperations n processors cache1 beforeOps result1 False of
        None \<Rightarrow> None
      | Some (Inl e) \<Rightarrow> Some (Inl e)
      | Some (Inr (cache2, result2)) \<Rightarrow>
     (case mapHooks afterHook processors cache2 operation of
        Inl e \<Rightarrow> Some (Inl e)
      | Inr (preparedOps, cache3) \<Rightarrow>
     (case PatchOperators cache3 operation of
        Inl e \<Rightarrow> Some (Inl e)
      | Inr (d, cache4) \<Rightarrow>
     (let result3 = (if primary then result2\<lparr>data := data result2 @ [d]\<rparr> else result2) in
      case forEachImmediate processors cache4 operation of
        Inl e \<Rightarrow> Some (Inl e)
      | Inr cache5 \<Rightarrow>
     (case applyOperations n processors cache5 preparedOps result3 False of
        None \<Rightarrow> None
      | Some (Inl e) \<Rightarrow> Some (Inl e)
      | Some (Inr (cache6, result4)) \<Rightarrow>
     (case mapHooks finallyHook processors cache6 operation of
        Inl e \<Rightarrow> Some (Inl e)
      | Inr (finallyOps, cache7) \<Rightarrow>
          applyOperations n processors cache7 finallyOps result4 False)))))))))"
| "applyOperations n processors cache [] result primary = Some (Inr (cache, result))"
| "applyOperations n processors cache (operation # ops) result primary =
     (case applyOperation n processors cache operation result primary of
        None \<Rightarrow> None
      | Some (Inl e) \<Rightarrow> Some (Inl e)
      | Some (Inr (cache', result')) \<Rightarrow> applyOperations n processors cache' ops result' primary)"

text \<open>
  \<^verbatim>\<open>patch\<close> takes one operation (\<open>Inl\<close>) or an array of operations (\<open>Inr\<close>), applies
  them as primary operations and reverses the inverse operations collected.  A
  function that builds the operations is taken as already applied.
\<close>

definition patch ::
  "nat \<Rightarrow> Processor list \<Rightarrow> Cache \<Rightarrow> RecordOperation + RecordOperation list \<Rightarrow>
   (error + Cache \<times> PatchResult) option" where
  "patch n processors cache operationOrOperations =
     (case (case operationOrOperations of
              Inr ops \<Rightarrow> applyOperations n processors cache ops \<lparr>inverse_ops = [], data = []\<rparr> True
            | Inl operation \<Rightarrow> applyOperation n processors cache operation \<lparr>inverse_ops = [], data = []\<rparr> True) of
        None \<Rightarrow> None
      | Some (Inl e) \<Rightarrow> Some (Inl e)
      | Some (Inr (cache', result)) \<Rightarrow> Some (Inr (cache', result\<lparr>inverse_ops := rev (inverse_ops result)\<rparr>)))"

section \<open>Notions used to state the properties\<close>

text \<open>A plain object has each property once.\<close>

definition properDict :: "'v dict \<Rightarrow> bool" where
  "properDict d = distinct (object_keys d)"

definition properGrouping :: "'v dict option \<Rightarrow> bool" where
  "properGrouping g = (case g of None \<Rightarrow> True | Some d \<Rightarrow> properDict d)"

definition properRecord :: "Record \<Rightarrow> bool" where
  "properRecord r = (properGrouping (keys r) \<and> properGrouping (attributes r) \<and> properGrouping (relationships r))"

text \<open>The value of a field in a grouping that may be missing.\<close>

definition fieldOf :: "'v dict option \<Rightarrow> string \<Rightarrow> 'v option" where
  "fieldOf g k = (case g of None \<Rightarrow> None | Some d \<Rightarrow> dict_get d k)"

text \<open>A field of the updates overrides the field of the current grouping.\<close>

definition overriding :: "'v dict option \<Rightarrow> 'v dict option \<Rightarrow> string \<Rightarrow> 'v option" where
  "overriding current updates k =
     (case fieldOf updates k of Some v \<Rightarrow> Some v | None \<Rightarrow> fieldOf current k)"

text \<open>The primitive values: everything but arrays and objects.\<close>

definition isPrimitive :: "jsval \<Rightarrow> bool" where
  "isPrimitive v = (case v of JArr _ _ \<Rightarrow> False | JObj _ _ \<Rightarrow> False | _ \<Rightarrow> True)"

text \<open>Relationship data names an identity: it is that identity or an array that holds it.\<close>

fun names :: "RelData option \<Rightarrow> RecordIdentity \<Rightarrow> bool" where
  "names (Some (DataOne y)) x = (y = x)"
| "names (Some (DataMany ys)) x = (x \<in> set ys)"
| "names _ x = False"

text \<open>The record stored under \<open>a\<close> names \<open>x\<close> in its relationship \<open>rel\<close>.\<close>

definition pointsTo :: "Cache \<Rightarrow> RecordIdentity \<Rightarrow> string \<Rightarrow> RecordIdentity \<Rightarrow> bool" where
  "pointsTo c a rel x =
     (case getRecord c a of Inr (Some ra) \<Rightarrow> names (deepGet_data ra rel) x | _ \<Rightarrow> False)"

text \<open>Invariants I1 and I6: every record is stored under its own type and id.\<close>

definition storedUnderIdentity :: "Cache \<Rightarrow> bool" where
  "storedUnderIdentity c =
     list_all (\<lambda>(t, bucket). list_all (\<lambda>(k, r). identity r = RecordIdentity t k) bucket) (records c)"

text \<open>
  Invariant I4 at the record \<open>x\<close>: for every stored record that names \<open>x\<close> in a
  relationship with a declared inverse, the inverse index holds the back-reference at \<open>x\<close>.
\<close>

definition indexCovers :: "Cache \<Rightarrow> RecordIdentity \<Rightarrow> bool" where
  "indexCovers c x =
     (case getInverselyRelatedRecords c x of
        Inl e \<Rightarrow> False
      | Inr backRefs \<Rightarrow>
          list_all (\<lambda>(t, bucket).
            list_all (\<lambda>(k, r).
              case relationships r of
                None \<Rightarrow> True
              | Some rels \<Rightarrow>
                  list_all (\<lambda>(rel, d).
                    names (Some d) x \<and> declaresInverse c (RecordIdentity t k) rel = Inr True \<longrightarrow>
                      RelatedRecordIdentity (RecordIdentity t k) rel \<in> set backRefs) rels) bucket)
            (records c))"

text \<open>
  The operations that the integrity processor returns when the record \<open>x\<close> is removed:
  each clears the relationship \<open>rel\<close> of the record \<open>a\<close> of \<open>x\<close>.
\<close>

fun cleans :: "RecordIdentity \<Rightarrow> RecordIdentity \<Rightarrow> string \<Rightarrow> RecordOperation \<Rightarrow> bool" where
  "cleans x a rel (RemoveFromRelatedRecords a' rel' x') = (a' = a \<and> rel' = rel \<and> x' = x)"
| "cleans x a rel (ReplaceRelatedRecord a' rel' d) = (a' = a \<and> rel' = rel \<and> d = DataNull)"
| "cleans x a rel _ = False"

text \<open>
  The semantic form of \<open>storedUnderIdentity\<close>, and two relations between the cache before
  and after a step: the step leaves the records alone and adds no back-reference at \<open>x\<close>;
  the step leaves the record \<open>a\<close> without \<open>x\<close> in its relationship \<open>rel\<close> and makes no
  record name \<open>x\<close> that did not.
\<close>

definition keyed :: "Cache \<Rightarrow> bool" where
  "keyed c = (\<forall>a ra. getRecord c a = Inr (Some ra) \<longrightarrow> identity ra = a)"

definition frame :: "Cache \<Rightarrow> RecordIdentity \<Rightarrow> Cache \<Rightarrow> bool" where
  "frame c0 x c = (records c = records c0 \<and> schema c = schema c0 \<and>
     (getInverselyRelatedRecords c0 x = Inr [] \<longrightarrow> getInverselyRelatedRecords c x = Inr []))"

definition cleaned :: "RecordIdentity \<Rightarrow> RecordIdentity \<Rightarrow> string \<Rightarrow> Cache \<Rightarrow> Cache \<Rightarrow> bool" where
  "cleaned x a rel c c' =
     (keyed c' \<and> schema c' = schema c \<and>
      (getInverselyRelatedRecords c x = Inr [] \<longrightarrow> getInverselyRelatedRecords c' x = Inr []) \<and>
      (\<forall>b rel'. pointsTo c' b rel' x \<longrightarrow> pointsTo c b rel' x) \<and>
      \<not> pointsTo c' a rel x \<and>
      (\<forall>b. getRecord c b = Inr None \<longrightarrow> getRecord c' b = Inr None))"

text \<open>
  An operation that assigns a primitive value to a key or an attribute that is set on
  a record stored under its own identity.
\<close>

fun settable :: "Cache \<Rightarrow> RecordOperation \<Rightarrow> bool" where
  "settable c (ReplaceKey i k v) =
     (isPrimitive v \<and>
      (case getRecord c i of
         Inr (Some r) \<Rightarrow> identity r = i \<and> fieldOf (keys r) k \<noteq> None
       | _ \<Rightarrow> False))"
| "settable c (ReplaceAttribute i a v) =
     (isPrimitive v \<and>
      (case getRecord c i of
         Inr (Some r) \<Rightarrow> identity r = i \<and> fieldOf (attributes r) a \<noteq> None
       | _ \<Rightarrow> False))"
| "settable c _ = False"

text \<open>The operations of a patch, given as one operation or as an array.\<close>

definition operationsOf :: "RecordOperation + RecordOperation list \<Rightarrow> RecordOperation list" where
  "operationsOf p = (case p of Inl operation \<Rightarrow> [operation] | Inr ops \<Rightarrow> ops)"

section \<open>A schema and records to evaluate on\<close>

text \<open>The schema of the test suite: planets, their moons and their solar system.\<close>

definition planetModel :: ModelDefinition where
  "planetModel =
     \<lparr>model_relationships =
        [(''moons'', \<lparr>rel_type = ''hasMany'', rel_model = ''moon'', inverse_name = Some ''planet''\<rparr>),
         (''solarSystem'', \<lparr>rel_type = ''hasOne'', rel_model = ''solarSystem'', inverse_name = Some ''planets''\<rparr>)]\<rparr>"

definition moonModel :: ModelDefinition where
  "moonModel =
     \<lparr>model_relationships =
        [(''planet'', \<lparr>rel_type = ''hasOne'', rel_model = ''planet'', inverse_name = Some ''moons''\<rparr>)]\<rparr>"

definition solarSystemModel :: ModelDefinition where
  "solarSystemModel =
     \<lparr>model_relationships =
        [(''planets'', \<lparr>rel_type = ''hasMany'', rel_model = ''planet'', inverse_name = Some ''solarSystem''\<rparr>)]\<rparr>"

definition testSchema :: Schema where
  "testSchema =
     \<lparr>models = [(''planet'', planetModel), (''moon'', moonModel), (''solarSystem'', solarSystemModel)]\<rparr>"

definition emptyCache :: Cache where
  "emptyCache = reset testSchema"

definition jupiter :: RecordIdentity where
  "jupiter = RecordIdentity ''planet'' ''jupiter''"

definition io :: RecordIdentity where
  "io = RecordIdentity ''moon'' ''io''"

definition europa :: RecordIdentity where
  "europa = RecordIdentity ''moon'' ''europa''"

definition planetOfOrder :: "string \<Rightarrow> int \<Rightarrow> Record" where
  "planetOfOrder name n =
     \<lparr>identity = RecordIdentity ''planet'' name, keys = None,
      attributes = Some [(''order'', JNum n)], relationships = None\<rparr>"

definition threePlanets :: Cache where
  "threePlanets =
     \<lparr>schema = testSchema,
      records = [(''planet'', [(''p5'', planetOfOrder ''p5'' 5), (''p1'', planetOfOrder ''p1'' 1),
                              (''p3'', planetOfOrder ''p3'' 3)]),
                 (''moon'', []), (''solarSystem'', [])],
      inverseRelationships = [(''planet'', []), (''moon'', []), (''solarSystem'', [])],
      copies = 0\<rparr>"

definition moonWithoutPlanet :: Record where
  "moonWithoutPlanet =
     \<lparr>identity = io, keys = None, attributes = None, relationships = Some [(''planet'', DataNull)]\<rparr>"

definition loneMoon :: Cache where
  "loneMoon =
     \<lparr>schema = testSchema,
      records = [(''planet'', []), (''moon'', [(''io'', moonWithoutPlanet)]), (''solarSystem'', [])],
      inverseRelationships = [(''planet'', []), (''moon'', []), (''solarSystem'', [])],
      copies = 0\<rparr>"

definition jupiterRecord :: Record where
  "jupiterRecord =
     \<lparr>identity = jupiter, keys = None, attributes = Some [(''name'', JStr ''Jupiter'')],
      relationships = Some [(''moons'', DataMany [io, europa])]\<rparr>"

definition moonOfJupiter :: "RecordIdentity \<Rightarrow> Record" where
  "moonOfJupiter m =
     \<lparr>identity = m, keys = None, attributes = None, relationships = Some [(''planet'', DataOne jupiter)]\<rparr>"

text \<open>Jupiter names the moons Io and Europa, but no record of Europa is stored.\<close>

definition danglingEuropa :: Cache where
  "danglingEuropa =
     \<lparr>schema = testSchema,
      records = [(''planet'', [(''jupiter'', jupiterRecord)]), (''moon'', [(''io'', moonOfJupiter io)]),
                 (''solarSystem'', [])],
      inverseRelationships =
        [(''planet'', [(''jupiter'', [RelatedRecordIdentity io ''planet''])]),
         (''moon'', [(''io'', [RelatedRecordIdentity jupiter ''moons'']),
                     (''europa'', [RelatedRecordIdentity jupiter ''moons''])]),
         (''solarSystem'', [])],
      copies = 0\<rparr>"

text \<open>Jupiter and its two moons, each naming the other, with the back-references in the index.\<close>

definition jupiterSystem :: Cache where
  "jupiterSystem =
     \<lparr>schema = testSchema,
      records = [(''planet'', [(''jupiter'', jupiterRecord)]),
                 (''moon'', [(''io'', moonOfJupiter io), (''europa'', moonOfJupiter europa)]),
                 (''solarSystem'', [])],
      inverseRelationships =
        [(''planet'', [(''jupiter'', [RelatedRecordIdentity io ''planet'', RelatedRecordIdentity europa ''planet''])]),
         (''moon'', [(''io'', [RelatedRecordIdentity jupiter ''moons'']),
                     (''europa'', [RelatedRecordIdentity jupiter ''moons''])]),
         (''solarSystem'', [])],
      copies = 0\<rparr>"

text \<open>The replacement of the second scenario: a classification and a solar system for Jupiter.\<close>

definition jupiterUpdate :: Record where
  "jupiterUpdate =
     \<lparr>identity = jupiter, keys = None, attributes = Some [(''classification'', JStr ''gas giant'')],
      relationships = Some [(''solarSystem'', DataOne (RecordIdentity ''solarSystem'' ''ss1''))]\<rparr>"

text \<open>A planet whose attribute \<^verbatim>\<open>tags\<close> is an array, and an equal array that is another object.\<close>

definition taggedPlanet :: Record where
  "taggedPlanet =
     \<lparr>identity = jupiter, keys = None,
      attributes = Some [(''tags'', JArr (Given 1) [JStr ''gas'', JStr ''giant''])], relationships = None\<rparr>"

definition sameTags :: jsval where
  "sameTags = JArr (Given 2) [JStr ''gas'', JStr ''giant'']"

text \<open>The cache that holds the tagged planet and nothing else.\<close>

definition taggedCache :: Cache where
  "taggedCache =
     \<lparr>schema = testSchema,
      records = [(''planet'', [(''jupiter'', taggedPlanet)]), (''moon'', []), (''solarSystem'', [])],
      inverseRelationships = [(''planet'', []), (''moon'', []), (''solarSystem'', [])],
      copies = 0\<rparr>"

text \<open>A processor that accepts every operation and whose other hooks all raise.\<close>

definition raisingProcessor :: Processor where
  "raisingProcessor =
     \<lparr>validateHook = (\<lambda>cache operation. None),
      beforeHook = (\<lambda>cache operation. Inl SchemaValidationError),
      afterHook = (\<lambda>cache operation. Inl SchemaValidationError),
      immediateHook = (\<lambda>cache operation. Inl SchemaValidationError),
      finallyHook = (\<lambda>cache operation. Inl SchemaValidationError)\<rparr>"

text \<open>Io names Jupiter as its planet, and the inverse index holds no back-reference.\<close>

definition barePlanet :: Record where
  "barePlanet =
     \<lparr>identity = jupiter, keys = None, attributes = Some [(''name'', JStr ''Jupiter'')], relationships = None\<rparr>"

definition unindexedMoon :: Cache where
  "unindexedMoon =
     \<lparr>schema = testSchema,
      records = [(''planet'', [(''jupiter'', barePlanet)]), (''moon'', [(''io'', moonOfJupiter io)]),
                 (''solarSystem'', [])],
      inverseRelationships = [(''planet'', []), (''moon'', []), (''solarSystem'', [])],
      copies = 0\<rparr>"

text \<open>The caches that the removal of Jupiter leaves.\<close>

definition orphan :: "RecordIdentity \<Rightarrow> Record" where
  "orphan m = \<lparr>identity = m, keys = None, attributes = None, relationships = Some [(''planet'', DataNull)]\<rparr>"

definition afterJupiter :: Cache where
  "afterJupiter =
     \<lparr>schema = testSchema,
      records = [(''planet'', []), (''moon'', [(''io'', orphan io), (''europa'', orphan europa)]),
                 (''solarSystem'', [])],
      inverseRelationships = [(''planet'', []), (''moon'', [(''io'', []), (''europa'', [])]),
                              (''solarSystem'', [])],
      copies = 0\<rparr>"

definition stillUnindexed :: Cache where
  "stillUnindexed =
     \<lparr>schema = testSchema,
      records = [(''planet'', []), (''moon'', [(''io'', moonOfJupiter io)]), (''solarSystem'', [])],
      inverseRelationships = [(''planet'', []), (''moon'', []), (''solarSystem'', [])],
      copies = 0\<rparr>"

text \<open>Jupiter created by \<^verbatim>\<open>replaceKey\<close>, and what the inverse of that operation leaves.\<close>

definition keyedJupiter :: "jsval \<Rightarrow> Cache" where
  "keyedJupiter v =
     \<lparr>schema = testSchema,
      records = [(''planet'', [(''jupiter'', \<lparr>identity = jupiter, keys = Some [(''remoteId'', v)],
                                               attributes = None, relationships = None\<rparr>)]),
                 (''moon'', []), (''solarSystem'', [])],
      inverseRelationships = [(''planet'', []), (''moon'', []), (''solarSystem'', [])],
      copies = 0\<rparr>"

text \<open>Two successive values for the name of Jupiter.\<close>

definition renaming :: "RecordOperation list" where
  "renaming = [ReplaceAttribute jupiter ''name'' (JStr ''Zeus''), ReplaceAttribute jupiter ''name'' JNull]"

text \<open>Coercions under which no object and no string converts to a number.\<close>

definition keepValue :: "jsval \<Rightarrow> jsval" where
  "keepValue v = v"

definition notANumber :: "string \<Rightarrow> int option" where
  "notANumber s = None"

definition noCoercion :: Coercion where
  "noCoercion = \<lparr>toPrimitive = keepValue, stringToNumber = notANumber\<rparr>"

section \<open>Properties\<close>


subsection \<open>Dictionaries\<close>

lemma dict_get_Nil: "dict_get [] k = None"
  by (simp add: dict_get_def)

lemma dict_get_Cons: "dict_get (p # d) k = (if fst p = k then Some (snd p) else dict_get d k)"
  by (cases p) (simp add: dict_get_def)

lemma dict_get_None_iff: "dict_get d k = None \<longleftrightarrow> k \<notin> fst ` set d"
  by (simp add: dict_get_def map_of_eq_None_iff)

lemma dict_get_dict_set: "dict_get (dict_set k v d) k' = (if k' = k then Some v else dict_get d k')"
  by (induction d) (auto simp: dict_get_Nil dict_get_Cons)

lemma dict_get_fold_set:
  "distinct (map fst src) \<Longrightarrow>
   dict_get (fold (\<lambda>(k, v). dict_set k v) src obj) k =
     (case dict_get src k of Some v \<Rightarrow> Some v | None \<Rightarrow> dict_get obj k)"
proof (induction src arbitrary: obj)
  case Nil
  then show ?case by (simp add: dict_get_Nil)
next
  case (Cons p src)
  obtain k' v' where p: "p = (k', v')" by (cases p)
  have none: "dict_get src k' = None" using Cons.prems p by (simp add: dict_get_None_iff)
  show ?case
    using Cons.IH[of "dict_set k' v' obj"] Cons.prems p none
    by (auto simp: dict_get_dict_set dict_get_Cons split: option.splits)
qed

subsection \<open>Reads of the accessor\<close>

text \<open>
  Claim C10.  When the identity has no record in the store, \<^verbatim>\<open>getRelatedRecord\<close> returns
  \<^verbatim>\<open>null\<close> and \<^verbatim>\<open>getRelatedRecords\<close> returns the empty array, whatever the relationship
  name; neither fails.  \<^verbatim>\<open>getRelatedRecord\<close> also returns \<^verbatim>\<open>null\<close> when the record exists
  and the data of its relationship is \<^verbatim>\<open>null\<close>, so the read does not tell the two cases
  apart.
\<close>

theorem related_reads_of_absent_record:
  "(getRecord c i = Inr None \<longrightarrow>
      getRelatedRecord c i rel = Inr DataNull \<and> getRelatedRecords c i rel = Inr (DataMany [])) \<and>
   (getRecord c i = Inr (Some r) \<and> deepGet_data r rel = Some DataNull \<longrightarrow>
      getRelatedRecord c i rel = Inr DataNull)"
  by (simp add: getRelatedRecord_def getRelatedRecords_def)

theorem related_reads_of_absent_record_witness:
  "getRecord emptyCache jupiter = Inr None \<and>
   getRelatedRecord emptyCache jupiter ''solarSystem'' = Inr DataNull \<and>
   getRelatedRecords emptyCache jupiter ''moons'' = Inr (DataMany []) \<and>
   getRecord loneMoon io = Inr (Some moonWithoutPlanet) \<and>
   deepGet_data moonWithoutPlanet ''planet'' = Some DataNull \<and>
   getRelatedRecord loneMoon io ''planet'' = Inr DataNull"
proof -
  have a: "getRecord emptyCache jupiter = Inr None"
    by (simp add: getRecord_def emptyCache_def reset_def testSchema_def object_keys_def jupiter_def dict_get_def)
  have b: "getRecord loneMoon io = Inr (Some moonWithoutPlanet)"
    by (simp add: getRecord_def loneMoon_def io_def dict_get_def)
  have c: "deepGet_data moonWithoutPlanet ''planet'' = Some DataNull"
    by (simp add: deepGet_data_def moonWithoutPlanet_def dict_get_def)
  show ?thesis
    using related_reads_of_absent_record [where c = emptyCache and i = jupiter and rel = "''solarSystem''"]
      related_reads_of_absent_record [where c = emptyCache and i = jupiter and rel = "''moons''"]
      related_reads_of_absent_record [where c = loneMoon and i = io and r = moonWithoutPlanet and rel = "''planet''"]
      a b c
    by simp
qed

subsection \<open>Queries\<close>

lemma getEach_positions:
  "\<forall>j\<in>set ids. \<exists>r. getRecord c j = Inr r \<Longrightarrow>
   \<exists>rs. getEach c ids = Inr rs \<and> length rs = length ids \<and>
        (\<forall>k<length ids. getRecord c (ids ! k) = Inr (rs ! k))"
proof (induction ids)
  case Nil
  then show ?case by simp
next
  case (Cons j js)
  then obtain r where r: "getRecord c j = Inr r" by auto
  from Cons obtain rs where rs: "getEach c js = Inr rs" "length rs = length js"
    "\<forall>k<length js. getRecord c (js ! k) = Inr (rs ! k)" by auto
  show ?case using r rs by (auto simp: nth_Cons split: nat.splits)
qed

text \<open>
  Claim C9.  \<^verbatim>\<open>findRelatedRecords\<close> maps every identity of the relationship's data, in
  order, through \<^verbatim>\<open>getRecord\<close> and filters nothing: the result has one entry for each
  identity, and the entry is what \<^verbatim>\<open>getRecord\<close> returns for it, hence \<^verbatim>\<open>undefined\<close> at the
  position of an identity that has no record.
\<close>

theorem findRelatedRecords_keeps_dangling:
  assumes "getRelatedRecords c i rel = Inr (DataMany ids)"
    and "\<forall>j\<in>set ids. \<exists>r. getRecord c j = Inr r"
  shows "\<exists>rs. findRelatedRecords c i rel = Inr (ManyRecords rs) \<and> length rs = length ids \<and>
           (\<forall>k<length ids. getRecord c (ids ! k) = Inr (rs ! k))"
  using getEach_positions[OF assms(2)] assms(1) by (auto simp: findRelatedRecords_def)

theorem findRelatedRecords_keeps_dangling_witness:
  "getRecord danglingEuropa europa = Inr None \<and>
   findRelatedRecords danglingEuropa jupiter ''moons'' = Inr (ManyRecords [Some (moonOfJupiter io), None])"
proof -
  have a: "getRelatedRecords danglingEuropa jupiter ''moons'' = Inr (DataMany [io, europa])"
    by (simp add: getRelatedRecords_def getRecord_def danglingEuropa_def jupiter_def dict_get_def
        deepGet_data_def jupiterRecord_def)
  have i: "getRecord danglingEuropa io = Inr (Some (moonOfJupiter io))"
    by (simp add: getRecord_def danglingEuropa_def io_def dict_get_def)
  have e: "getRecord danglingEuropa europa = Inr None"
    by (simp add: getRecord_def danglingEuropa_def europa_def dict_get_def)
  have b: "\<forall>j\<in>set [io, europa]. \<exists>r. getRecord danglingEuropa j = Inr r"
    using i e by simp
  obtain rs where rs: "findRelatedRecords danglingEuropa jupiter ''moons'' = Inr (ManyRecords rs)"
    "length rs = length [io, europa]"
    "\<forall>k<length [io, europa]. getRecord danglingEuropa ([io, europa] ! k) = Inr (rs ! k)"
    using findRelatedRecords_keeps_dangling [OF a b] by blast
  have "rs ! 0 = Some (moonOfJupiter io)" "rs ! 1 = None"
    using rs(3) i e by (auto simp: nth_Cons split: nat.splits)
  moreover have "length rs = 2" using rs(2) by simp
  ultimately have "rs = [Some (moonOfJupiter io), None]"
    by (cases rs; cases "tl rs"; auto)
  then show ?thesis using rs(1) e by simp
qed

lemma slice_nonneg:
  "0 \<le> off \<Longrightarrow> 0 \<le> l \<Longrightarrow> slice xs off (off + l) = take (nat l) (drop (nat off) xs)"
  unfolding slice_def slice_index_def Let_def
  by (auto simp: min_def nat_add_distrib take_all_iff)

text \<open>
  Claim C8.  Let a \<^verbatim>\<open>findRecords\<close> expression carry a page specifier, and let the records
  of its type, filtered and sorted, be the sequence \<open>ordered\<close>.  When the page has no
  limit the evaluator raises \<^verbatim>\<open>QueryExpressionParseError\<close>.  When it has the limit \<open>l\<close>
  the result is the slice of \<open>ordered\<close> from the offset, 0 when the page has none, to the
  offset plus \<open>l\<close>: for an offset and a limit that are not negative, the \<open>l\<close> records that
  follow the first \<open>off\<close> ones, or as many as there are.
\<close>

theorem findRecords_page:
  assumes "getRecords cache ty = Inr results"
    and "(case filters of None \<Rightarrow> Inr results | Some fs \<Rightarrow> filterRecords cv results fs) = Inr filtered"
    and "(case sorts of None \<Rightarrow> Inr filtered | Some sps \<Rightarrow> sortRecords cv filtered sps) = Inr ordered"
    and "off = (case offset pg of None \<Rightarrow> 0 | Some x \<Rightarrow> x)"
  shows "(limit pg = None \<longrightarrow>
            findRecords cv cache (Some ty) filters sorts (Some pg) = Inl QueryExpressionParseError) \<and>
         (\<forall>l. limit pg = Some l \<longrightarrow>
            findRecords cv cache (Some ty) filters sorts (Some pg)
              = Inr (ManyRecords (map Some (slice ordered off (off + l)))) \<and>
            (0 \<le> off \<and> 0 \<le> l \<longrightarrow>
               slice ordered off (off + l) = take (nat l) (drop (nat off) ordered) \<and>
               int (length (slice ordered off (off + l))) \<le> l))"
  using assms by (auto simp: findRecords_def paginateRecords_def slice_nonneg Let_def)

theorem findRecords_page_witness:
  "findRecords noCoercion threePlanets (Some ''planet'') None (Some [AttributeSort ''order'' ''ascending''])
     (Some \<lparr>offset = Some 1, limit = Some 1\<rparr>) = Inr (ManyRecords [Some (planetOfOrder ''p3'' 3)]) \<and>
   findRecords noCoercion threePlanets (Some ''planet'') None (Some [AttributeSort ''order'' ''ascending''])
     (Some \<lparr>offset = Some 1, limit = None\<rparr>) = Inl QueryExpressionParseError"
proof -
  have a: "getRecords threePlanets ''planet''
             = Inr [planetOfOrder ''p5'' 5, planetOfOrder ''p1'' 1, planetOfOrder ''p3'' 3]"
    by (simp add: getRecords_def threePlanets_def dict_get_def)
  have b: "(case None of None \<Rightarrow> Inr [planetOfOrder ''p5'' 5, planetOfOrder ''p1'' 1, planetOfOrder ''p3'' 3]
            | Some fs \<Rightarrow> filterRecords noCoercion [planetOfOrder ''p5'' 5, planetOfOrder ''p1'' 1, planetOfOrder ''p3'' 3] fs)
           = Inr [planetOfOrder ''p5'' 5, planetOfOrder ''p1'' 1, planetOfOrder ''p3'' 3]"
    by simp
  have c: "(case Some [AttributeSort ''order'' ''ascending''] of
              None \<Rightarrow> Inr [planetOfOrder ''p5'' 5, planetOfOrder ''p1'' 1, planetOfOrder ''p3'' 3]
            | Some sps \<Rightarrow> sortRecords noCoercion [planetOfOrder ''p5'' 5, planetOfOrder ''p1'' 1, planetOfOrder ''p3'' 3] sps)
           = Inr [planetOfOrder ''p1'' 1, planetOfOrder ''p3'' 3, planetOfOrder ''p5'' 5]"
    by (simp add: sortRecords_def sortBy_def planetOfOrder_def deepGet_attribute_def dict_get_def
        js_lt_def js_gt_def js_less_def primitive_def noCoercion_def)
  have d: "(1::int) = (case offset \<lparr>offset = Some 1, limit = Some 1\<rparr> of None \<Rightarrow> 0 | Some x \<Rightarrow> x)" by simp
  have d': "(1::int) = (case offset \<lparr>offset = Some 1, limit = None\<rparr> of None \<Rightarrow> 0 | Some x \<Rightarrow> x)" by simp
  show ?thesis
    using findRecords_page [OF a b c d] findRecords_page [OF a b c d'] by simp
qed


lemma fieldOf_mergeGrouping:
  "properGrouping c \<Longrightarrow> properGrouping u \<Longrightarrow> fieldOf (mergeGrouping c u) k = overriding c u k"
  by (cases c; cases u)
     (auto simp: mergeGrouping_def merge_def fieldOf_def overriding_def properGrouping_def properDict_def
        object_keys_def dict_get_fold_set dict_get_Nil split: option.splits)

lemma getRecord_setRecord:
  "setRecord c r = Inr c' \<Longrightarrow> getRecord c' (identity r) = Inr (Some r)"
  by (auto simp: setRecord_def getRecord_def dict_get_dict_set split: option.splits)

lemma setRecord_ok:
  "getRecord c i = Inr x \<Longrightarrow> rtype (identity r) = rtype i \<Longrightarrow> \<exists>c'. setRecord c r = Inr c'"
  by (auto simp: setRecord_def getRecord_def split: option.splits)

subsection \<open>Patch operators\<close>

text \<open>
  Claim C4.  The patch operator of \<^verbatim>\<open>replaceRecord(r)\<close> stores, under the identity of
  \<open>r\<close>, the merge of \<open>r\<close> into the record found there: in each of \<^verbatim>\<open>attributes\<close>, \<^verbatim>\<open>keys\<close>
  and \<^verbatim>\<open>relationships\<close> a field that \<open>r\<close> mentions has the value \<open>r\<close> gives it and
  every other field keeps the value of the existing record.  When no record is found,
  \<open>r\<close> itself is stored.
\<close>

theorem replaceRecord_stores_merge:
  assumes "getRecord cache (identity r) = Inr cur"
    and "properRecord r"
    and "\<forall>c. cur = Some c \<longrightarrow> properRecord c \<and> identity c = identity r"
  shows "\<exists>m cache'. patch_replaceRecord cache r = Inr (Some m, cache') \<and>
           getRecord cache' (identity r) = Inr (Some m) \<and>
           (case cur of
              None \<Rightarrow> m = r
            | Some c \<Rightarrow>
                identity m = identity c \<and>
                (\<forall>k. fieldOf (attributes m) k = overriding (attributes c) (attributes r) k) \<and>
                (\<forall>k. fieldOf (keys m) k = overriding (keys c) (keys r) k) \<and>
                (\<forall>k. fieldOf (relationships m) k = overriding (relationships c) (relationships r) k))"
proof -
  define m where "m = mergeRecords cur r"
  have idm: "identity m = identity r"
    using assms(3) by (cases cur) (auto simp: m_def mergeRecords_def cloneRecordIdentity_def)
  obtain cache' where c': "setRecord cache m = Inr cache'"
    using setRecord_ok[OF assms(1), of m] idm by auto
  have p: "patch_replaceRecord cache r = Inr (Some m, cache')"
    using assms(1) c' by (simp add: patch_replaceRecord_def storeRecord_def m_def)
  have g: "getRecord cache' (identity r) = Inr (Some m)"
    using getRecord_setRecord[OF c'] idm by simp
  have f: "(case cur of
              None \<Rightarrow> m = r
            | Some c \<Rightarrow>
                identity m = identity c \<and>
                (\<forall>k. fieldOf (attributes m) k = overriding (attributes c) (attributes r) k) \<and>
                (\<forall>k. fieldOf (keys m) k = overriding (keys c) (keys r) k) \<and>
                (\<forall>k. fieldOf (relationships m) k = overriding (relationships c) (relationships r) k))"
  proof (cases cur)
    case None
    then show ?thesis by (simp add: m_def mergeRecords_def)
  next
    case (Some c)
    then have pc: "properRecord c" using assms(3) by simp
    show ?thesis
      using Some pc assms(2)
      by (simp add: m_def mergeRecords_def cloneRecordIdentity_def properRecord_def fieldOf_mergeGrouping)
  qed
  show ?thesis using p g f by blast
qed

theorem replaceRecord_stores_merge_witness:
  "(\<exists>m cache'. patch_replaceRecord jupiterSystem jupiterUpdate = Inr (Some m, cache') \<and>
      fieldOf (attributes m) ''name'' = Some (JStr ''Jupiter'') \<and>
      fieldOf (attributes m) ''classification'' = Some (JStr ''gas giant'') \<and>
      fieldOf (relationships m) ''moons'' = Some (DataMany [io, europa]) \<and>
      fieldOf (relationships m) ''solarSystem'' = Some (DataOne (RecordIdentity ''solarSystem'' ''ss1''))) \<and>
   (\<exists>cache'. patch_replaceRecord emptyCache jupiterUpdate = Inr (Some jupiterUpdate, cache'))"
proof -
  have a: "getRecord jupiterSystem (identity jupiterUpdate) = Inr (Some jupiterRecord)"
    by (simp add: getRecord_def jupiterSystem_def jupiterUpdate_def jupiter_def dict_get_def)
  have b: "properRecord jupiterUpdate"
    by (simp add: properRecord_def properGrouping_def properDict_def object_keys_def jupiterUpdate_def)
  have c: "\<forall>c. Some jupiterRecord = Some c \<longrightarrow> properRecord c \<and> identity c = identity jupiterUpdate"
    by (simp add: properRecord_def properGrouping_def properDict_def object_keys_def jupiterUpdate_def
        jupiterRecord_def)
  have a': "getRecord emptyCache (identity jupiterUpdate) = Inr None"
    by (simp add: getRecord_def emptyCache_def reset_def testSchema_def object_keys_def jupiterUpdate_def
        jupiter_def dict_get_def)
  have c': "\<forall>c. None = Some c \<longrightarrow> properRecord c \<and> identity c = identity jupiterUpdate"
    by simp
  have v: "overriding (attributes jupiterRecord) (attributes jupiterUpdate) ''name'' = Some (JStr ''Jupiter'')"
    "overriding (attributes jupiterRecord) (attributes jupiterUpdate) ''classification'' = Some (JStr ''gas giant'')"
    "overriding (relationships jupiterRecord) (relationships jupiterUpdate) ''moons'' = Some (DataMany [io, europa])"
    "overriding (relationships jupiterRecord) (relationships jupiterUpdate) ''solarSystem''
       = Some (DataOne (RecordIdentity ''solarSystem'' ''ss1''))"
    by (simp_all add: overriding_def fieldOf_def jupiterRecord_def jupiterUpdate_def dict_get_def)
  show ?thesis
    using replaceRecord_stores_merge [OF a b c] replaceRecord_stores_merge [OF a' b c'] v by auto
qed

subsection \<open>Attribute filters\<close>

text \<open>
  Claim C5 as stated fails: the array that the stored planet has as its attribute
  \<^verbatim>\<open>tags\<close> and the expected array are deeply equal, and \<^verbatim>\<open>findRecords\<close> with the filter
  \<^verbatim>\<open>equal\<close> on \<^verbatim>\<open>tags\<close> does not return the planet.
\<close>

theorem attribute_equal_is_not_deep:
  "getRecords taggedCache ''planet'' = Inr [taggedPlanet] \<and>
   eq (deepGet_attribute taggedPlanet ''tags'') sameTags \<and>
   findRecords noCoercion taggedCache (Some ''planet'')
     (Some [AttributeFilter ''tags'' ''equal'' sameTags]) None None = Inr (ManyRecords [])"
  by (simp add: taggedCache_def taggedPlanet_def sameTags_def deepGet_attribute_def dict_get_def
      getRecords_def findRecords_def)

lemma applyFilter_attribute:
  "applyFilter cv r (AttributeFilter a ''equal'' v) = Inr (strict_eq (deepGet_attribute r a) v)"
  "applyFilter cv r (AttributeFilter a ''gt'' v) = Inr (js_gt cv (deepGet_attribute r a) v)"
  "applyFilter cv r (AttributeFilter a ''gte'' v) = Inr (js_gte cv (deepGet_attribute r a) v)"
  "applyFilter cv r (AttributeFilter a ''lt'' v) = Inr (js_lt cv (deepGet_attribute r a) v)"
  "applyFilter cv r (AttributeFilter a ''lte'' v) = Inr (js_lte cv (deepGet_attribute r a) v)"
  by (simp_all add: Let_def)

lemma filterRecords_single:
  assumes "\<And>r. applyFilter cv r f = Inr (keep r)"
  shows "filterRecords cv rs [f] = Inr (filter keep rs)"
  by (induction rs) (simp_all add: assms)

lemma findRecords_single:
  assumes "getRecords cache ty = Inr rs" and "\<And>r. applyFilter cv r f = Inr (keep r)"
  shows "findRecords cv cache (Some ty) (Some [f]) None None = Inr (ManyRecords (map Some (filter keep rs)))"
  using assms(1) filterRecords_single[of cv f keep rs, OF assms(2)] by (simp add: findRecords_def)

lemma js_numbers:
  "js_gt cv (JNum x) (JNum y) = (x > y)" "js_gte cv (JNum x) (JNum y) = (x \<ge> y)"
  "js_lt cv (JNum x) (JNum y) = (x < y)" "js_lte cv (JNum x) (JNum y) = (x \<le> y)"
  by (auto simp: js_gt_def js_gte_def js_lt_def js_lte_def js_less_def primitive_def)

lemma js_strings:
  "js_gt cv (JStr s) (JStr t) = string_less t s" "js_gte cv (JStr s) (JStr t) = (\<not> string_less s t)"
  "js_lt cv (JStr s) (JStr t) = string_less s t" "js_lte cv (JStr s) (JStr t) = (\<not> string_less t s)"
  by (auto simp: js_gt_def js_gte_def js_lt_def js_lte_def js_less_def primitive_def)

text \<open>
  Claim C5, amended.  Let \<open>rs\<close> be the records of a type.  \<^verbatim>\<open>findRecords\<close> with an attribute
  filter of the operator \<^verbatim>\<open>equal\<close> returns exactly the records of \<open>rs\<close> whose attribute
  value is strictly equal (\<^verbatim>\<open>===\<close>) to the expected value, in the order of \<open>rs\<close>: numbers,
  strings and booleans are strictly equal when they are the same value, and two arrays or
  two objects when they are the same object, whatever they contain.  With the operators
  \<^verbatim>\<open>gt\<close>, \<^verbatim>\<open>gte\<close>, \<^verbatim>\<open>lt\<close> and \<^verbatim>\<open>lte\<close> it returns the records whose attribute value
  stands in the native ordering to the expected value, which orders numbers by value and
  strings by their characters.
\<close>

theorem attribute_filter_strict_equality:
  assumes "getRecords cache ty = Inr rs"
  shows
  "findRecords cv cache (Some ty) (Some [AttributeFilter a ''equal'' v]) None None
     = Inr (ManyRecords (map Some (filter (\<lambda>r. strict_eq (deepGet_attribute r a) v) rs))) \<and>
   strict_eq (JNum x) (JNum y) = (x = y) \<and>
   strict_eq (JStr s) (JStr t) = (s = t) \<and>
   strict_eq (JBool b) (JBool d) = (b = d) \<and>
   strict_eq (JArr p xs) (JArr q ys) = (p = q) \<and>
   strict_eq (JObj p fs) (JObj q gs) = (p = q) \<and>
   findRecords cv cache (Some ty) (Some [AttributeFilter a ''gt'' v]) None None
     = Inr (ManyRecords (map Some (filter (\<lambda>r. js_gt cv (deepGet_attribute r a) v) rs))) \<and>
   findRecords cv cache (Some ty) (Some [AttributeFilter a ''gte'' v]) None None
     = Inr (ManyRecords (map Some (filter (\<lambda>r. js_gte cv (deepGet_attribute r a) v) rs))) \<and>
   findRecords cv cache (Some ty) (Some [AttributeFilter a ''lt'' v]) None None
     = Inr (ManyRecords (map Some (filter (\<lambda>r. js_lt cv (deepGet_attribute r a) v) rs))) \<and>
   findRecords cv cache (Some ty) (Some [AttributeFilter a ''lte'' v]) None None
     = Inr (ManyRecords (map Some (filter (\<lambda>r. js_lte cv (deepGet_attribute r a) v) rs))) \<and>
   js_gt cv (JNum x) (JNum y) = (x > y) \<and> js_gte cv (JNum x) (JNum y) = (x \<ge> y) \<and>
   js_lt cv (JNum x) (JNum y) = (x < y) \<and> js_lte cv (JNum x) (JNum y) = (x \<le> y) \<and>
   js_gt cv (JStr s) (JStr t) = string_less t s \<and> js_gte cv (JStr s) (JStr t) = (\<not> string_less s t) \<and>
   js_lt cv (JStr s) (JStr t) = string_less s t \<and> js_lte cv (JStr s) (JStr t) = (\<not> string_less t s)"
  using findRecords_single[OF assms applyFilter_attribute(1)]
    findRecords_single[OF assms applyFilter_attribute(2)]
    findRecords_single[OF assms applyFilter_attribute(3)]
    findRecords_single[OF assms applyFilter_attribute(4)]
    findRecords_single[OF assms applyFilter_attribute(5)]
    js_numbers [of cv x y] js_strings [of cv s t]
  by simp

theorem attribute_filter_strict_equality_witness:
  "getRecords taggedCache ''planet'' = Inr [taggedPlanet] \<and>
   findRecords noCoercion taggedCache (Some ''planet'')
     (Some [AttributeFilter ''tags'' ''equal'' (deepGet_attribute taggedPlanet ''tags'')]) None None
     = Inr (ManyRecords [Some taggedPlanet]) \<and>
   findRecords noCoercion taggedCache (Some ''planet'')
     (Some [AttributeFilter ''tags'' ''equal'' (JArr (Given 7) [JStr ''gas'', JStr ''giant''])]) None None
     = Inr (ManyRecords []) \<and>
   findRecords noCoercion taggedCache (Some ''planet'')
     (Some [AttributeFilter ''tags'' ''equal'' (JStr ''gas,giant'')]) None None
     = Inr (ManyRecords [])"
proof -
  have g: "getRecords taggedCache ''planet'' = Inr [taggedPlanet]"
    by (simp add: taggedCache_def getRecords_def dict_get_def)
  have t: "deepGet_attribute taggedPlanet ''tags'' = JArr (Given 1) [JStr ''gas'', JStr ''giant'']"
    by (simp add: taggedPlanet_def deepGet_attribute_def dict_get_def)
  show ?thesis
    using g
      attribute_filter_strict_equality [OF g, where cv = noCoercion and a = "''tags''"
        and v = "deepGet_attribute taggedPlanet ''tags''"]
      attribute_filter_strict_equality [OF g, where cv = noCoercion and a = "''tags''"
        and v = "JArr (Given 7) [JStr ''gas'', JStr ''giant'']"]
      attribute_filter_strict_equality [OF g, where cv = noCoercion and a = "''tags''"
        and v = "JStr ''gas,giant''"]
    by (simp add: t)
qed

subsection \<open>The inverse of \<^verbatim>\<open>replaceAttribute\<close>\<close>

text \<open>
  Claim C6.  Against the empty cache, the inverse operator of
  \<^verbatim>\<open>replaceAttribute(jupiter, 'name', 'Jupiter')\<close> does not return an operation: it raises
  a \<^verbatim>\<open>TypeError\<close>, and so does the patch.  The inverse operator of \<^verbatim>\<open>replaceKey\<close> returns
  its inverse in the same situation.
\<close>

theorem replaceAttribute_inverse_raises_on_absent_record:
  "InversePatchOperators emptyCache (ReplaceAttribute jupiter ''name'' (JStr ''Jupiter'')) = Inl TypeError \<and>
   patch 1 [CacheIntegrityProcessor] emptyCache (Inl (ReplaceAttribute jupiter ''name'' (JStr ''Jupiter'')))
     = Some (Inl TypeError) \<and>
   InversePatchOperators emptyCache (ReplaceKey jupiter ''remoteId'' (JStr ''j''))
     = Inr (Some (ReplaceKey jupiter ''remoteId'' JUndefined))"
  by (simp add: patch_def inverse_replaceAttribute_def inverse_replaceKey_def getRecord_def emptyCache_def
      reset_def testSchema_def object_keys_def jupiter_def dict_get_def CacheIntegrityProcessor_def
      cloneRecordIdentity_def)

subsection \<open>The pipeline\<close>

text \<open>
  Claim C3.  When the inverse operator returns nothing for an operation that the
  processors accept, the pipeline leaves the cache as it is, appends nothing to the
  inverse operations, and appends \<^verbatim>\<open>null\<close> to the data exactly when the operation is
  primary.  This holds whatever the hooks \<^verbatim>\<open>before\<close>, \<^verbatim>\<open>after\<close>, \<^verbatim>\<open>immediate\<close> and
  \<^verbatim>\<open>finally\<close> of the processors and the patch operator would do: none of them runs.
\<close>

theorem noop_operation_is_skipped:
  assumes "InversePatchOperators cache operation = Inr None"
  shows "applyOperation (Suc n) processors cache operation result primary =
     (case validateAll processors cache operation of
        Some e \<Rightarrow> Some (Inl e)
      | None \<Rightarrow>
          Some (Inr (cache, \<lparr>inverse_ops = inverse_ops result,
                             data = (if primary then data result @ [None] else data result)\<rparr>)))"
  using assms by (simp split: option.splits)

theorem noop_operation_is_skipped_witness:
  "InversePatchOperators emptyCache (RemoveRecord jupiter) = Inr None \<and>
   applyOperation 1 [raisingProcessor, CacheIntegrityProcessor] emptyCache (RemoveRecord jupiter)
     \<lparr>inverse_ops = [], data = []\<rparr> True = Some (Inr (emptyCache, \<lparr>inverse_ops = [], data = [None]\<rparr>)) \<and>
   applyOperation 1 [raisingProcessor, CacheIntegrityProcessor] emptyCache (RemoveRecord jupiter)
     \<lparr>inverse_ops = [], data = []\<rparr> False = Some (Inr (emptyCache, \<lparr>inverse_ops = [], data = []\<rparr>))"
proof -
  have a: "InversePatchOperators emptyCache (RemoveRecord jupiter) = Inr None"
    by (simp add: inverse_removeRecord_def getRecord_def emptyCache_def reset_def testSchema_def
        object_keys_def jupiter_def dict_get_def)
  have v: "validateAll [raisingProcessor, CacheIntegrityProcessor] emptyCache (RemoveRecord jupiter) = None"
    by (simp add: raisingProcessor_def CacheIntegrityProcessor_def)
  show ?thesis
    using noop_operation_is_skipped [OF a, of 0 "[raisingProcessor, CacheIntegrityProcessor]" "\<lparr>inverse_ops = [], data = []\<rparr>" True]
      noop_operation_is_skipped [OF a, of 0 "[raisingProcessor, CacheIntegrityProcessor]" "\<lparr>inverse_ops = [], data = []\<rparr>" False]
      a v
    by simp
qed

text \<open>
  Claim C7.  When the record is absent, \<^verbatim>\<open>removeFromRelatedRecords\<close> applied through
  \<^verbatim>\<open>patch\<close> raises no error, leaves the cache as it is and creates no record, so that
  \<^verbatim>\<open>findRecord\<close> still raises \<^verbatim>\<open>RecordNotFoundException\<close>.  The patch operator itself
  returns \<^verbatim>\<open>null\<close> and leaves the cache as it is.
\<close>

theorem removeFromRelatedRecords_absent_record:
  assumes "getRecord cache i = Inr None"
    and "validateAll processors cache (RemoveFromRelatedRecords i rel x) = None"
  shows "patch (Suc n) processors cache (Inl (RemoveFromRelatedRecords i rel x))
           = Some (Inr (cache, \<lparr>inverse_ops = [], data = [None]\<rparr>)) \<and>
         patch_removeFromRelatedRecords cache i rel x = Inr (None, cache) \<and>
         findRecord cache i = Inl (RecordNotFoundException (rtype i) (rid i))"
  using assms
  by (simp add: patch_def inverse_removeFromRelatedRecords_def relatedRecordsInclude_def
      getRelatedRecords_def recordIdentitySetIncludes_def patch_removeFromRelatedRecords_def findRecord_def)

theorem removeFromRelatedRecords_absent_record_witness:
  "patch 1 [CacheIntegrityProcessor] emptyCache (Inl (RemoveFromRelatedRecords jupiter ''moons'' (RecordIdentity ''moon'' ''moon2'')))
           = Some (Inr (emptyCache, \<lparr>inverse_ops = [], data = [None]\<rparr>)) \<and>
   findRecord emptyCache jupiter = Inl (RecordNotFoundException ''planet'' ''jupiter'')"
proof -
  have a: "getRecord emptyCache jupiter = Inr None"
    by (simp add: getRecord_def emptyCache_def reset_def testSchema_def object_keys_def jupiter_def dict_get_def)
  have v: "validateAll [CacheIntegrityProcessor] emptyCache
             (RemoveFromRelatedRecords jupiter ''moons'' (RecordIdentity ''moon'' ''moon2'')) = None"
    by (simp add: CacheIntegrityProcessor_def)
  show ?thesis
    using removeFromRelatedRecords_absent_record [OF a v, of 0] by (simp add: jupiter_def)
qed


subsection \<open>Removal of a record\<close>

lemma dict_get_dict_remove: "dict_get (dict_remove k d) k' = (if k' = k then None else dict_get d k')"
  by (induction d) (auto simp: dict_remove_def dict_get_Nil dict_get_Cons)

lemma dict_get_mem: "dict_get d k = Some v \<Longrightarrow> (k, v) \<in> set d"
  by (simp add: dict_get_def map_of_SomeD)

lemma getRecord_setRecord_other:
  "setRecord c r = Inr c' \<Longrightarrow> getRecord c' b = (if b = identity r then Inr (Some r) else getRecord c b)"
  by (cases b; cases "identity r")
     (auto simp: setRecord_def getRecord_def dict_get_dict_set split: option.splits if_splits)

lemma setRecord_frame:
  "setRecord c r = Inr c' \<Longrightarrow> schema c' = schema c \<and> inverseRelationships c' = inverseRelationships c"
  by (auto simp: setRecord_def split: option.splits)

lemma removeRecord_effect:
  "removeRecord c x = Inr (ro, c') \<Longrightarrow>
     schema c' = schema c \<and> inverseRelationships c' = inverseRelationships c \<and>
     getRecord c x = Inr ro \<and>
     getRecord c' b = (if b = x then Inr None else getRecord c b)"
  by (cases b; cases x)
     (auto simp: removeRecord_def getRecord_def dict_get_dict_set dict_get_dict_remove split: option.splits if_splits)

lemma getInverse_frame:
  "inverseRelationships c' = inverseRelationships c \<Longrightarrow>
   getInverselyRelatedRecords c' x = getInverselyRelatedRecords c x"
  by (simp add: getInverselyRelatedRecords_def)

lemma getRecord_frame: "records c' = records c \<Longrightarrow> getRecord c' b = getRecord c b"
  by (simp add: getRecord_def)

lemma removeInverselyRelatedRecord_frame:
  "removeInverselyRelatedRecord c r br = Inr c' \<Longrightarrow>
     records c' = records c \<and> schema c' = schema c \<and>
     (getInverselyRelatedRecords c x = Inr [] \<longrightarrow> getInverselyRelatedRecords c' x = Inr [])"
  by (cases r; cases x)
     (auto simp: removeInverselyRelatedRecord_def getInverselyRelatedRecords_def Let_def dict_get_dict_set
        split: option.splits if_splits)

lemma removeInverseRelationships_effect:
  "removeInverseRelationships c x = Inr c' \<Longrightarrow>
     records c' = records c \<and> schema c' = schema c \<and> getInverselyRelatedRecords c' x = Inr []"
  by (auto simp: removeInverseRelationships_def getInverselyRelatedRecords_def dict_get_dict_set
        dict_get_dict_remove split: option.splits)


lemma forEachIdentity_invariant:
  assumes "\<And>c i c'. f c i = Inr c' \<Longrightarrow> I c \<Longrightarrow> I c'"
    and "forEachIdentity f is c = Inr c'" and "I c"
  shows "I c'"
  using assms(2,3)
proof (induction "is" arbitrary: c)
  case Nil
  then show ?case by simp
next
  case (Cons i "is")
  then show ?case using assms(1) by (auto split: sum.splits)
qed

lemma forRelationshipData_invariant:
  assumes "\<And>c i c'. f c i = Inr c' \<Longrightarrow> I c \<Longrightarrow> I c'"
    and "forRelationshipData f d c = Inr c'" and "I c"
  shows "I c'"
  using assms forEachIdentity_invariant[of f I]
  by (cases d) (auto simp: forRelationshipData_def)

lemma forEachRelationship_invariant:
  assumes "\<And>rel c i c'. f rel c i = Inr c' \<Longrightarrow> I c \<Longrightarrow> I c'"
    and "forEachRelationship f rels c = Inr c'" and "I c"
  shows "I c'"
  using assms(2,3)
proof (induction rels arbitrary: c)
  case Nil
  then show ?case by simp
next
  case (Cons kv rest)
  from Cons.prems obtain c1 where c1: "forRelationshipData (f (fst kv)) (snd kv) c = Inr c1"
    and rest: "forEachRelationship f rest c1 = Inr c'"
    by (auto split: sum.splits)
  have "I c1"
    using forRelationshipData_invariant[of "f (fst kv)" I, OF _ c1 Cons.prems(2)] assms(1) by blast
  then show ?case using Cons.IH[OF rest] by simp
qed

lemma frame_refl: "frame c x c"
  by (simp add: frame_def)

lemma frame_removeInversely:
  "removeInverselyRelatedRecord c r br = Inr c' \<Longrightarrow> frame c0 x c \<Longrightarrow> frame c0 x c'"
  using removeInverselyRelatedRecord_frame[of c r br c' x] by (auto simp: frame_def)

lemma removeInverseRelationship_frame:
  "removeInverseRelationship c a rel ro = Inr c' \<Longrightarrow> frame c x c'"
  using frame_removeInversely[of c _ _ c' c x] frame_refl[of c x]
  by (auto simp: removeInverseRelationship_def split: sum.splits bool.splits option.splits RelData.splits)

lemma removeAllInverseRelationships_effect:
  assumes "removeAllInverseRelationships c x = Inr c'"
  shows "records c' = records c \<and> schema c' = schema c \<and> getInverselyRelatedRecords c' x = Inr []"
proof -
  from assms obtain ro c1 where ro: "getRecord c x = Inr ro"
    and loop: "(case (case ro of None \<Rightarrow> None | Some r \<Rightarrow> relationships r) of
                 None \<Rightarrow> Inr c
               | Some rels \<Rightarrow>
                   forEachRelationship
                     (\<lambda>rel c relatedRecord.
                        removeInverselyRelatedRecord c relatedRecord (RelatedRecordIdentity x rel))
                     rels c) = Inr c1"
    and fin: "removeInverseRelationships c1 x = Inr c'"
    by (auto simp: removeAllInverseRelationships_def split: sum.splits)
  have "frame c x c1"
  proof (cases "case ro of None \<Rightarrow> None | Some r \<Rightarrow> relationships r")
    case None
    then show ?thesis using loop by (simp add: frame_refl)
  next
    case (Some rels)
    then have l: "forEachRelationship
                     (\<lambda>rel c relatedRecord.
                        removeInverselyRelatedRecord c relatedRecord (RelatedRecordIdentity x rel))
                     rels c = Inr c1" using loop by simp
    show ?thesis
      by (rule forEachRelationship_invariant[where I = "frame c x", OF _ l frame_refl])
         (rule frame_removeInversely)
  qed
  then show ?thesis
    using removeInverseRelationships_effect[OF fin] by (simp add: frame_def)
qed

lemma clearOps_cleans:
  "clearOps c x backRefs = Inr ops \<Longrightarrow>
   list_all2 (\<lambda>br op. cleans x (rel_record br) (relationship br) op) backRefs ops"
proof (induction backRefs arbitrary: ops)
  case Nil
  then show ?case by simp
next
  case (Cons br rest)
  then show ?case by (auto split: sum.splits option.splits if_splits)
qed

lemma integrity_finally_no_ops: "integrity_finally c op = Inr (fops, c') \<Longrightarrow> fops = []"
  by (cases op) (auto simp: noOps_def split: sum.splits)

lemma applyOperation_integrity:
  "applyOperation (Suc n) [CacheIntegrityProcessor] c op res primary =
     (case InversePatchOperators c op of
        Inl e \<Rightarrow> Some (Inl e)
      | Inr None \<Rightarrow> Some (Inr (c, if primary then res\<lparr>data := data res @ [None]\<rparr> else res))
      | Inr (Some inverseOp) \<Rightarrow>
          (case integrity_after c op of
             Inl e \<Rightarrow> Some (Inl e)
           | Inr (prepared, c3) \<Rightarrow>
               (case PatchOperators c3 op of
                  Inl e \<Rightarrow> Some (Inl e)
                | Inr (d, c4) \<Rightarrow>
                    (case applyOperations n [CacheIntegrityProcessor] c4 prepared
                            (if primary
                             then res\<lparr>inverse_ops := inverse_ops res @ [inverseOp], data := data res @ [d]\<rparr>
                             else res\<lparr>inverse_ops := inverse_ops res @ [inverseOp]\<rparr>) False of
                       None \<Rightarrow> None
                     | Some (Inl e) \<Rightarrow> Some (Inl e)
                     | Some (Inr (c6, r4)) \<Rightarrow>
                         (case integrity_finally c6 op of
                            Inl e \<Rightarrow> Some (Inl e)
                          | Inr (fops, c7) \<Rightarrow> Some (Inr (c7, r4)))))))"
  by (auto simp: CacheIntegrityProcessor_def Let_def dest: integrity_finally_no_ops
      split: sum.splits option.splits prod.splits)


lemma storedUnderIdentity_keyed: "storedUnderIdentity c \<Longrightarrow> keyed c"
  unfolding keyed_def storedUnderIdentity_def getRecord_def
proof (intro allI impI)
  fix a ra
  assume all: "list_all (\<lambda>(t, bucket). list_all (\<lambda>(k, r). identity r = RecordIdentity t k) bucket) (records c)"
    and get: "(case dict_get (records c) (rtype a) of None \<Rightarrow> Inl TypeError
               | Some bucket \<Rightarrow> Inr (dict_get bucket (rid a))) = Inr (Some ra)"
  from get obtain bucket where b: "dict_get (records c) (rtype a) = Some bucket"
    and r: "dict_get bucket (rid a) = Some ra"
    by (auto split: option.splits)
  from b have "(rtype a, bucket) \<in> set (records c)" by (rule dict_get_mem)
  with all have "list_all (\<lambda>(k, r). identity r = RecordIdentity (rtype a) k) bucket"
    by (auto simp: list_all_iff)
  moreover from r have "(rid a, ra) \<in> set bucket" by (rule dict_get_mem)
  ultimately have "identity ra = RecordIdentity (rtype a) (rid a)"
    by (auto simp: list_all_iff)
  then show "identity ra = a" by simp
qed

lemma deepGet_data_set:
  "deepGet_data (r\<lparr>relationships := grouping_set rel v (relationships r)\<rparr>) rel' =
     (if rel' = rel then Some v else deepGet_data r rel')"
  by (auto simp: deepGet_data_def grouping_set_def dict_get_dict_set dict_get_Nil split: option.splits)

lemma keyed_frame: "records c' = records c \<Longrightarrow> keyed c' = keyed c"
  by (simp add: keyed_def getRecord_def)

lemma pointsTo_frame: "records c' = records c \<Longrightarrow> pointsTo c' b rel x = pointsTo c b rel x"
  by (simp add: pointsTo_def getRecord_def)

lemma cleaned_refl: "keyed c \<Longrightarrow> \<not> pointsTo c a rel x \<Longrightarrow> cleaned x a rel c c"
  by (simp add: cleaned_def)

lemma cleaned_frame_left:
  "frame c x c1 \<Longrightarrow> cleaned x a rel c1 c' \<Longrightarrow> cleaned x a rel c c'"
  unfolding cleaned_def frame_def
  by (simp add: getRecord_def pointsTo_def)

lemma cleaned_frame_right:
  "cleaned x a rel c c1 \<Longrightarrow> frame c1 x c' \<Longrightarrow> cleaned x a rel c c'"
  unfolding cleaned_def frame_def
  by (simp add: getRecord_def pointsTo_def keyed_def)

lemma clone_frame:
  "clone r n = (r', m) \<Longrightarrow> identity r' = identity r \<and> relationships r' = relationships r"
  by (auto simp: clone_def split: prod.splits)

lemma cloneOrBare_stored:
  assumes "cloneOrBare c (Some r) i = (r', c1)"
  shows "identity r' = identity r" and "relationships r' = relationships r"
    and "records c1 = records c" and "schema c1 = schema c"
    and "inverseRelationships c1 = inverseRelationships c"
  using assms clone_frame by (auto simp: cloneOrBare_def split: prod.splits)

lemma cloneOrBare_absent: "cloneOrBare c None i = (bare i, c)"
  by (simp add: cloneOrBare_def)

lemma frame_heap:
  assumes "records c1 = records c" and "schema c1 = schema c"
    and "inverseRelationships c1 = inverseRelationships c"
  shows "frame c x c1"
  using assms by (simp add: frame_def getInverselyRelatedRecords_def)

lemma update_relationship:
  assumes k: "keyed c" and g: "getRecord c a = Inr (Some ra)"
    and i: "identity r' = identity ra" and rs: "relationships r' = relationships ra"
    and s: "setRecord c (r'\<lparr>relationships := grouping_set rel v (relationships r')\<rparr>) = Inr c'"
    and n: "\<not> names (Some v) x"
  shows "cleaned x a rel c c'"
proof -
  let ?r = "r'\<lparr>relationships := grouping_set rel v (relationships r')\<rparr>"
  have ida: "identity ?r = a" using k g i by (simp add: keyed_def)
  have same: "\<And>rel'. deepGet_data r' rel' = deepGet_data ra rel'"
    using rs by (simp add: deepGet_data_def)
  have get: "\<And>b. getRecord c' b = (if b = a then Inr (Some ?r) else getRecord c b)"
    using getRecord_setRecord_other[OF s] ida by simp
  have fr: "schema c' = schema c" "inverseRelationships c' = inverseRelationships c"
    using setRecord_frame[OF s] by simp_all
  have k': "keyed c'" using k ida by (auto simp: keyed_def get)
  have p: "\<And>b rel'. pointsTo c' b rel' x \<Longrightarrow> pointsTo c b rel' x"
    using g n by (auto simp: pointsTo_def get deepGet_data_set same split: if_splits)
  have np: "\<not> pointsTo c' a rel x"
    using n by (simp add: pointsTo_def get deepGet_data_set)
  have ab: "\<And>b. getRecord c b = Inr None \<Longrightarrow> getRecord c' b = Inr None"
    using g by (auto simp: get)
  show ?thesis
    unfolding cleaned_def using k' fr p np ab getInverse_frame[OF fr(2)] by auto
qed


lemma equalRecordIdentities_same: "equalRecordIdentities (one x) (one y) = (x = y)"
  by (cases x; cases y) simp

lemma patch_removeFrom_cleaned:
  assumes k: "keyed c" and p: "patch_removeFromRelatedRecords c a rel x = Inr (d, c')"
  shows "cleaned x a rel c c'"
proof (cases "getRecord c a")
  case (Inl e)
  then show ?thesis using p by (simp add: patch_removeFromRelatedRecords_def)
next
  case (Inr ro)
  show ?thesis
  proof (cases ro)
    case None
    then have "c' = c" using p Inr by (simp add: patch_removeFromRelatedRecords_def)
    moreover have "\<not> pointsTo c a rel x" using Inr None by (simp add: pointsTo_def)
    ultimately show ?thesis using k by (simp add: cleaned_refl)
  next
    case (Some ra)
    note g = Inr[unfolded Some]
    obtain r' c1 where cl: "cloneOrBare c (Some ra) a = (r', c1)" by (cases "cloneOrBare c (Some ra) a")
    note cf = cloneOrBare_stored[OF cl]
    have f: "frame c x c1" by (rule frame_heap[OF cf(3,4,5)])
    have k1: "keyed c1" using k keyed_frame[OF cf(3)] by simp
    have g1: "getRecord c1 a = Inr (Some ra)" using g cf(3) by (simp add: getRecord_def)
    have same: "deepGet_data r' rel = deepGet_data ra rel" using cf(2) by (simp add: deepGet_data_def)
    have unstored: "\<not> pointsTo c a rel x \<Longrightarrow> c' = c1 \<Longrightarrow> ?thesis"
      using cleaned_frame_right[OF cleaned_refl[OF k] f] by simp
    show ?thesis
    proof (cases "deepGet_data ra rel")
      case None
      then have "c' = c1" using p g cl same by (simp add: patch_removeFromRelatedRecords_def)
      moreover have "\<not> pointsTo c a rel x" using g None by (simp add: pointsTo_def)
      ultimately show ?thesis using unstored by simp
    next
      case (Some dat)
      show ?thesis
      proof (cases dat)
        case DataNull
        then have "c' = c1" using p g cl same Some by (simp add: patch_removeFromRelatedRecords_def)
        moreover have "\<not> pointsTo c a rel x" using g Some DataNull by (simp add: pointsTo_def)
        ultimately show ?thesis using unstored by simp
      next
        case (DataOne y)
        then show ?thesis using p g cl same Some by (simp add: patch_removeFromRelatedRecords_def)
      next
        case (DataMany ys)
        let ?v = "DataMany (filter (\<lambda>r. \<not> equalRecordIdentities (one r) (one x)) ys)"
        have s: "setRecord c1 (r'\<lparr>relationships := grouping_set rel ?v (relationships r')\<rparr>) = Inr c'"
          using p g cl same Some DataMany
          by (auto simp: patch_removeFromRelatedRecords_def storeIfSet_def storeRecord_def deepSet_data_def
              split: sum.splits)
        have n: "\<not> names (Some ?v) x" by (simp add: equalRecordIdentities_same)
        show ?thesis
          by (rule cleaned_frame_left[OF f update_relationship[OF k1 g1 cf(1) cf(2) s n]])
      qed
    qed
  qed
qed

lemma inverse_removeFrom_None:
  "inverse_removeFromRelatedRecords c a rel x = Inr None \<Longrightarrow> \<not> pointsTo c a rel x"
  by (auto simp: inverse_removeFromRelatedRecords_def relatedRecordsInclude_def getRelatedRecords_def
      pointsTo_def recordIdentitySetIncludes_def list_ex_iff equalRecordIdentities_same
      split: sum.splits option.splits RelData.splits bool.splits)

lemma clean_removeFrom:
  assumes k: "keyed c"
    and ap: "applyOperation (Suc m) [CacheIntegrityProcessor] c (RemoveFromRelatedRecords a rel x) res False
             = Some (Inr (c', res'))"
  shows "cleaned x a rel c c'"
proof (cases "inverse_removeFromRelatedRecords c a rel x")
  case (Inl e)
  then show ?thesis using ap by (simp add: applyOperation_integrity del: applyOperation.simps)
next
  case (Inr io)
  show ?thesis
  proof (cases io)
    case None
    then have "c' = c" using ap Inr by (simp add: applyOperation_integrity del: applyOperation.simps)
    then show ?thesis using k inverse_removeFrom_None Inr None by (simp add: cleaned_refl)
  next
    case (Some inverseOp)
    from ap Inr Some obtain c3 d c4 where
      a3: "removeInverseRelationship c a rel (Some x) = Inr c3"
      and p4: "patch_removeFromRelatedRecords c3 a rel x = Inr (d, c4)"
      and e: "c' = c4"
      by (auto simp add: applyOperation_integrity noOps_def simp del: applyOperation.simps
          split: sum.splits option.splits prod.splits)
    have f: "frame c x c3" by (rule removeInverseRelationship_frame[OF a3])
    then have k3: "keyed c3" using k keyed_frame[of c3 c] by (simp add: frame_def)
    show ?thesis
      using cleaned_frame_left[OF f patch_removeFrom_cleaned[OF k3 p4]] e by simp
  qed
qed

lemma inverse_replaceNull_None:
  "inverse_replaceRelatedRecord c a rel DataNull = Inr None \<Longrightarrow> \<not> pointsTo c a rel x"
  by (auto simp: inverse_replaceRelatedRecord_def getRelatedRecord_def pointsTo_def isNone_def
      split: sum.splits option.splits RelData.splits if_splits)

lemma inverse_replaceNull_Some:
  "inverse_replaceRelatedRecord c a rel DataNull = Inr (Some inverseOp) \<Longrightarrow> \<exists>ra. getRecord c a = Inr (Some ra)"
  by (auto simp: inverse_replaceRelatedRecord_def getRelatedRecord_def isNone_def
      split: sum.splits option.splits RelData.splits if_splits)

lemma patch_replaceNull_cleaned:
  assumes k: "keyed c" and g: "getRecord c a = Inr (Some ra)"
    and p: "patch_replaceRelatedRecord c a rel DataNull = Inr (d, c')"
  shows "cleaned x a rel c c'"
proof -
  obtain r' c1 where cl: "cloneOrBare c (Some ra) a = (r', c1)" by (cases "cloneOrBare c (Some ra) a")
  note cf = cloneOrBare_stored[OF cl]
  have f: "frame c x c1" by (rule frame_heap[OF cf(3,4,5)])
  have k1: "keyed c1" using k keyed_frame[OF cf(3)] by simp
  have g1: "getRecord c1 a = Inr (Some ra)" using g cf(3) by (simp add: getRecord_def)
  have same: "deepGet_data r' rel = deepGet_data ra rel" using cf(2) by (simp add: deepGet_data_def)
  show ?thesis
  proof (cases "deepGet_data ra rel = Some DataNull")
    case True
    then have "c' = c1"
      using p g cl same by (simp add: patch_replaceRelatedRecord_def deepSet_data_def storeIfSet_def)
    moreover have "\<not> pointsTo c a rel x" using g True by (simp add: pointsTo_def)
    ultimately show ?thesis using cleaned_frame_right[OF cleaned_refl[OF k] f] by simp
  next
    case False
    then have s: "setRecord c1 (r'\<lparr>relationships := grouping_set rel DataNull (relationships r')\<rparr>) = Inr c'"
      using p g cl same
      by (auto simp: patch_replaceRelatedRecord_def deepSet_data_def storeIfSet_def
          storeRecord_def split: sum.splits)
    have n: "\<not> names (Some DataNull) x" by simp
    show ?thesis
      by (rule cleaned_frame_left[OF f update_relationship[OF k1 g1 cf(1) cf(2) s n]])
  qed
qed

lemma clean_replaceNull:
  assumes k: "keyed c"
    and ap: "applyOperation (Suc m) [CacheIntegrityProcessor] c (ReplaceRelatedRecord a rel DataNull) res False
             = Some (Inr (c', res'))"
  shows "cleaned x a rel c c'"
proof (cases "inverse_replaceRelatedRecord c a rel DataNull")
  case (Inl e)
  then show ?thesis using ap by (simp add: applyOperation_integrity del: applyOperation.simps)
next
  case (Inr io)
  show ?thesis
  proof (cases io)
    case None
    then have "c' = c" using ap Inr by (simp add: applyOperation_integrity del: applyOperation.simps)
    then show ?thesis using k inverse_replaceNull_None Inr None by (simp add: cleaned_refl)
  next
    case (Some inverseOp)
    from ap Inr Some obtain c3 d c4 where
      a3: "removeInverseRelationship c a rel None = Inr c3"
      and p4: "patch_replaceRelatedRecord c3 a rel DataNull = Inr (d, c4)"
      and e: "c' = c4"
      by (auto simp add: applyOperation_integrity noOps_def addInverseRelationship_def
          simp del: applyOperation.simps split: sum.splits option.splits prod.splits)
    have f: "frame c x c3" by (rule removeInverseRelationship_frame[OF a3])
    then have k3: "keyed c3" using k keyed_frame[of c3 c] by (simp add: frame_def)
    obtain ra where "getRecord c a = Inr (Some ra)"
      using inverse_replaceNull_Some Inr Some by blast
    then have g3: "getRecord c3 a = Inr (Some ra)" using f by (simp add: frame_def getRecord_def)
    show ?thesis
      using cleaned_frame_left[OF f patch_replaceNull_cleaned[OF k3 g3 p4]] e by simp
  qed
qed

lemma clean_op:
  assumes "cleans x a rel op" and "keyed c"
    and "applyOperation (Suc m) [CacheIntegrityProcessor] c op res False = Some (Inr (c', res'))"
  shows "cleaned x a rel c c'"
  using assms clean_removeFrom clean_replaceNull by (cases op) auto


lemma clean_all:
  assumes "list_all2 (\<lambda>br op. cleans x (rel_record br) (relationship br) op) backRefs ops"
    and "keyed c"
    and "applyOperations n [CacheIntegrityProcessor] c ops res False = Some (Inr (c', res'))"
  shows "keyed c' \<and> schema c' = schema c \<and>
         (getInverselyRelatedRecords c x = Inr [] \<longrightarrow> getInverselyRelatedRecords c' x = Inr []) \<and>
         (\<forall>b rel'. pointsTo c' b rel' x \<longrightarrow> pointsTo c b rel' x \<and> RelatedRecordIdentity b rel' \<notin> set backRefs) \<and>
         (\<forall>b. getRecord c b = Inr None \<longrightarrow> getRecord c' b = Inr None)"
  using assms
proof (induction backRefs ops arbitrary: c res rule: list_all2_induct)
  case Nil
  then show ?case by simp
next
  case (Cons br brs op ops)
  obtain m where n: "n = Suc m"
    using Cons.prems(2) by (cases n) auto
  from Cons.prems(2) obtain c1 res1 where
    first: "applyOperation (Suc m) [CacheIntegrityProcessor] c op res False = Some (Inr (c1, res1))"
    and rest: "applyOperations n [CacheIntegrityProcessor] c1 ops res1 False = Some (Inr (c', res'))"
    unfolding n applyOperations.simps
    by (auto split: option.splits sum.splits prod.splits)
  have cl: "cleaned x (rel_record br) (relationship br) c c1"
    by (rule clean_op[OF Cons.hyps(1) Cons.prems(1) first])
  then have k1: "keyed c1" by (simp add: cleaned_def)
  note ih = Cons.IH[OF k1 rest]
  have br: "br = RelatedRecordIdentity (rel_record br) (relationship br)" by simp
  show ?case
  proof (intro conjI allI impI)
    show "keyed c'" using ih by simp
    show "schema c' = schema c" using ih cl by (simp add: cleaned_def)
    show "getInverselyRelatedRecords c' x = Inr []" if "getInverselyRelatedRecords c x = Inr []"
      using ih cl that by (simp add: cleaned_def)
    show "pointsTo c b rel' x" if "pointsTo c' b rel' x" for b rel'
      using ih cl that by (simp add: cleaned_def)
    show "RelatedRecordIdentity b rel' \<notin> set (br # brs)" if "pointsTo c' b rel' x" for b rel'
    proof -
      have p1: "pointsTo c1 b rel' x" and nin: "RelatedRecordIdentity b rel' \<notin> set brs"
        using ih that by simp_all
      have "\<not> pointsTo c1 (rel_record br) (relationship br) x" using cl by (simp add: cleaned_def)
      with p1 have "RelatedRecordIdentity b rel' \<noteq> br"
        by (metis RelatedRecordIdentity.sel(1) RelatedRecordIdentity.sel(2))
      with nin show ?thesis by simp
    qed
    show "getRecord c' b = Inr None" if "getRecord c b = Inr None" for b
      using ih cl that by (simp add: cleaned_def)
  qed
qed

lemma indexCovers_backRef:
  assumes "indexCovers c x" and "getInverselyRelatedRecords c x = Inr backRefs"
    and "pointsTo c a rel x" and "declaresInverse c a rel = Inr True"
  shows "RelatedRecordIdentity a rel \<in> set backRefs"
proof -
  from assms(3) obtain ra where g: "getRecord c a = Inr (Some ra)" and nm: "names (deepGet_data ra rel) x"
    by (auto simp: pointsTo_def split: sum.splits option.splits)
  from g obtain bucket where b: "dict_get (records c) (rtype a) = Some bucket"
    and r: "dict_get bucket (rid a) = Some ra"
    by (auto simp: getRecord_def split: option.splits)
  from nm obtain rels d where rs: "relationships ra = Some rels" and d: "dict_get rels rel = Some d"
    and nd: "names (Some d) x"
    by (cases "relationships ra"; cases "deepGet_data ra rel") (auto simp: deepGet_data_def)
  have m1: "(rtype a, bucket) \<in> set (records c)" using b by (rule dict_get_mem)
  have m2: "(rid a, ra) \<in> set bucket" using r by (rule dict_get_mem)
  have m3: "(rel, d) \<in> set rels" using d by (rule dict_get_mem)
  have ida: "RecordIdentity (rtype a) (rid a) = a" by simp
  let ?P = "\<lambda>t k rel d. names (Some d) x \<and> declaresInverse c (RecordIdentity t k) rel = Inr True \<longrightarrow>
                      RelatedRecordIdentity (RecordIdentity t k) rel \<in> set backRefs"
  from assms(1,2) have
    "\<forall>(t, bucket) \<in> set (records c). \<forall>(k, r) \<in> set bucket.
        case relationships r of None \<Rightarrow> True | Some rels \<Rightarrow> \<forall>(rel, d) \<in> set rels. ?P t k rel d"
    by (simp add: indexCovers_def list_all_iff case_prod_unfold cong: option.case_cong)
  from bspec[OF this m1] have
    "\<forall>(k, r) \<in> set bucket.
        case relationships r of None \<Rightarrow> True | Some rels \<Rightarrow> \<forall>(rel, d) \<in> set rels. ?P (rtype a) k rel d"
    by simp
  from bspec[OF this m2] rs have "\<forall>(rel, d) \<in> set rels. ?P (rtype a) (rid a) rel d"
    by simp
  from bspec[OF this m3] nd assms(4) show ?thesis
    unfolding ida by simp
qed

lemma declaresInverse_schema: "schema c' = schema c \<Longrightarrow> declaresInverse c' a rel = declaresInverse c a rel"
  by (simp add: declaresInverse_def)

text \<open>Two levels of recursion are enough for the removal of a record.\<close>

lemma integrity_after_no_ops:
  "\<forall>x. op \<noteq> RemoveRecord x \<Longrightarrow> integrity_after c op = Inr (ops, c') \<Longrightarrow> ops = []"
  by (cases op) (auto simp: noOps_def split: sum.splits)

lemma applyOperation_within_bound:
  assumes "\<forall>x. op \<noteq> RemoveRecord x"
  shows "applyOperation (Suc n) [CacheIntegrityProcessor] c op res pr \<noteq> None"
  using integrity_after_no_ops[OF assms, of c]
  by (auto simp add: applyOperation_integrity simp del: applyOperation.simps
      split: sum.splits option.splits prod.splits)

lemma cleaning_within_bound:
  assumes "list_all2 (\<lambda>br op. cleans x (rel_record br) (relationship br) op) backRefs ops"
  shows "applyOperations (Suc n) [CacheIntegrityProcessor] c ops res pr \<noteq> None"
  using assms
proof (induction backRefs ops arbitrary: c res rule: list_all2_induct)
  case Nil
  then show ?case by simp
next
  case (Cons br brs op ops)
  have "\<forall>y. op \<noteq> RemoveRecord y" using Cons.hyps(1) by (cases op) auto
  from applyOperation_within_bound[OF this, of n c res pr]
  obtain r where r: "applyOperation (Suc n) [CacheIntegrityProcessor] c op res pr = Some r" by auto
  show ?case
  proof (cases r)
    case (Inl e)
    then show ?thesis using r by (simp del: applyOperation.simps)
  next
    case (Inr cr)
    then show ?thesis using r Cons.IH[of "fst cr" "snd cr"]
      by (cases cr) (simp del: applyOperation.simps)
  qed
qed

lemma removeRecord_within_bound:
  "patch (Suc (Suc n)) [CacheIntegrityProcessor] c (Inl (RemoveRecord x)) \<noteq> None"
proof -
  have "applyOperation (Suc (Suc n)) [CacheIntegrityProcessor] c (RemoveRecord x) res pr \<noteq> None" for res pr
  proof (cases "integrity_after c (RemoveRecord x)")
    case (Inl e)
    then show ?thesis
      by (auto simp add: applyOperation_integrity simp del: applyOperation.simps
          split: sum.splits option.splits prod.splits)
  next
    case (Inr oc)
    obtain ops c3 where oc: "oc = (ops, c3)" by (cases oc)
    from Inr oc obtain backRefs where
      co: "clearOps c (cloneRecordIdentity x) backRefs = Inr ops"
      by (auto simp: clearInverseRelationshipOps_def split: sum.splits)
    have cl: "list_all2 (\<lambda>br op. cleans (cloneRecordIdentity x) (rel_record br) (relationship br) op) backRefs ops"
      by (rule clearOps_cleans[OF co])
    show ?thesis
      using Inr oc
      by (auto simp add: applyOperation_integrity cleaning_within_bound[OF cl]
          simp del: applyOperation.simps applyOperations.simps
          split: sum.splits option.splits prod.splits)
  qed
  then show ?thesis
    by (auto simp: patch_def simp del: applyOperation.simps split: option.splits sum.splits prod.splits)
qed

text \<open>
  Claim C2, amended.  Let every record be stored under its own identity, let the record
  \<open>x\<close> be present, and let the inverse index hold, at \<open>x\<close>, the back-reference of every
  record that names \<open>x\<close> in a relationship with a declared inverse.  After a patch that
  consists of \<^verbatim>\<open>removeRecord(x)\<close> completes, in the pipeline of the cache integrity
  processor, \<open>x\<close> is gone, no record names \<open>x\<close> in a relationship with a declared inverse
  (no hasOne data is \<open>x\<close>, no hasMany array holds \<open>x\<close>), and the inverse index holds no
  back-reference at \<open>x\<close>.
\<close>

theorem removeRecord_clears_pointers:
  assumes st: "storedUnderIdentity c" and cov: "indexCovers c x"
    and present: "getRecord c x = Inr (Some rx)"
    and run: "patch n [CacheIntegrityProcessor] c (Inl (RemoveRecord x)) = Some (Inr (c', res))"
  shows "getRecord c' x = Inr None \<and>
         (\<forall>a rel. declaresInverse c' a rel = Inr True \<longrightarrow> \<not> pointsTo c' a rel x) \<and>
         getInverselyRelatedRecords c' x = Inr []"
proof -
  have k: "keyed c" by (rule storedUnderIdentity_keyed[OF st])
  obtain m where n: "n = Suc m"
    using run by (cases n) (auto simp: patch_def)
  from run obtain res0 where
    ap: "applyOperation (Suc m) [CacheIntegrityProcessor] c (RemoveRecord x) \<lparr>inverse_ops = [], data = []\<rparr> True
           = Some (Inr (c', res0))"
    unfolding n patch_def by (auto split: option.splits sum.splits prod.splits)
  have inv: "InversePatchOperators c (RemoveRecord x) = Inr (Some (AddRecord rx))"
    using present by (simp add: inverse_removeRecord_def)
  from ap inv obtain ops c3 d c4 r3 r4 where
    after: "integrity_after c (RemoveRecord x) = Inr (ops, c3)"
    and rem: "removeRecord c3 x = Inr (d, c4)"
    and sub: "applyOperations m [CacheIntegrityProcessor] c4 ops r3 False = Some (Inr (c', r4))"
    by (auto simp add: applyOperation_integrity patch_removeRecord_def simp del: applyOperation.simps
        split: sum.splits option.splits prod.splits)
  from after obtain backRefs where
    br: "getInverselyRelatedRecords c x = Inr backRefs"
    and co: "clearOps c (cloneRecordIdentity x) backRefs = Inr ops"
    and ra: "removeAllInverseRelationships c x = Inr c3"
    by (auto simp: clearInverseRelationshipOps_def split: sum.splits)
  have cx: "cloneRecordIdentity x = x" by (simp add: cloneRecordIdentity_def)
  have cl: "list_all2 (\<lambda>br op. cleans x (rel_record br) (relationship br) op) backRefs ops"
    using clearOps_cleans[OF co] cx by simp
  have e3: "records c3 = records c" "schema c3 = schema c" "getInverselyRelatedRecords c3 x = Inr []"
    using removeAllInverseRelationships_effect[OF ra] by simp_all
  have e4: "schema c4 = schema c3" "inverseRelationships c4 = inverseRelationships c3"
    "\<And>b. getRecord c4 b = (if b = x then Inr None else getRecord c3 b)"
    using removeRecord_effect[OF rem] by simp_all
  have g3: "\<And>b. getRecord c3 b = getRecord c b" using e3(1) by (simp add: getRecord_def)
  have k4: "keyed c4" using k by (auto simp: keyed_def e4(3) g3 split: if_splits)
  have n4: "getInverselyRelatedRecords c4 x = Inr []"
    using e3(3) getInverse_frame[OF e4(2)] by simp
  note all = clean_all[OF cl k4 sub]
  have gone: "getRecord c' x = Inr None" using all e4(3) by simp
  have nob: "getInverselyRelatedRecords c' x = Inr []" using all n4 by simp
  have sch: "schema c' = schema c" using all e4(1) e3(2) by simp
  have "\<not> pointsTo c' a rel x" if di: "declaresInverse c' a rel = Inr True" for a rel
  proof
    assume p: "pointsTo c' a rel x"
    then have p4: "pointsTo c4 a rel x" and nin: "RelatedRecordIdentity a rel \<notin> set backRefs"
      using all by simp_all
    from p4 have pc: "pointsTo c a rel x"
      by (auto simp: pointsTo_def e4(3) g3 split: if_splits)
    have "declaresInverse c a rel = Inr True" using di declaresInverse_schema[OF sch] by simp
    from indexCovers_backRef[OF cov br pc this] nin show False by simp
  qed
  then show ?thesis using gone nob by blast
qed


theorem removeRecord_clears_pointers_witness:
  "storedUnderIdentity jupiterSystem \<and> indexCovers jupiterSystem jupiter \<and>
   getRecord jupiterSystem jupiter = Inr (Some jupiterRecord) \<and>
   pointsTo jupiterSystem io ''planet'' jupiter \<and>
   patch 2 [CacheIntegrityProcessor] jupiterSystem (Inl (RemoveRecord jupiter))
     = Some (Inr (afterJupiter,
         \<lparr>inverse_ops = [ReplaceRelatedRecord europa ''planet'' (DataOne jupiter),
                         ReplaceRelatedRecord io ''planet'' (DataOne jupiter), AddRecord jupiterRecord],
          data = [Some jupiterRecord]\<rparr>)) \<and>
   getRecord afterJupiter jupiter = Inr None \<and>
   \<not> pointsTo afterJupiter io ''planet'' jupiter \<and>
   \<not> pointsTo afterJupiter europa ''planet'' jupiter \<and>
   getInverselyRelatedRecords afterJupiter jupiter = Inr []"
proof -
  have st: "storedUnderIdentity jupiterSystem" by code_simp
  have cov: "indexCovers jupiterSystem jupiter" by code_simp
  have present: "getRecord jupiterSystem jupiter = Inr (Some jupiterRecord)" by code_simp
  have pt: "pointsTo jupiterSystem io ''planet'' jupiter" by code_simp
  have run: "patch 2 [CacheIntegrityProcessor] jupiterSystem (Inl (RemoveRecord jupiter))
     = Some (Inr (afterJupiter,
         \<lparr>inverse_ops = [ReplaceRelatedRecord europa ''planet'' (DataOne jupiter),
                         ReplaceRelatedRecord io ''planet'' (DataOne jupiter), AddRecord jupiterRecord],
          data = [Some jupiterRecord]\<rparr>))"
    by code_simp
  have d1: "declaresInverse afterJupiter io ''planet'' = Inr True" by code_simp
  have d2: "declaresInverse afterJupiter europa ''planet'' = Inr True" by code_simp
  show ?thesis
    using removeRecord_clears_pointers [OF st cov present run] st cov present pt run d1 d2 by simp
qed


text \<open>
  Claim C2 as stated fails.  Io names Jupiter as its planet, a relationship with a
  declared inverse, in a cache whose inverse index holds no back-reference.  The patch
  that removes Jupiter completes, and Io still names Jupiter.
\<close>

theorem removeRecord_leaves_unindexed_pointer:
  "getRecord unindexedMoon jupiter = Inr (Some barePlanet) \<and>
   patch 2 [CacheIntegrityProcessor] unindexedMoon (Inl (RemoveRecord jupiter))
     = Some (Inr (stillUnindexed, \<lparr>inverse_ops = [AddRecord barePlanet], data = [Some barePlanet]\<rparr>)) \<and>
   getRecord stillUnindexed io = Inr (Some (moonOfJupiter io)) \<and>
   declaresInverse stillUnindexed io ''planet'' = Inr True \<and>
   pointsTo stillUnindexed io ''planet'' jupiter"
  by code_simp

end
